theory Spec2Isabelle
  imports Complex_Main "HOL-Library.List_Lexorder" "HOL-Library.Product_Lexorder"
begin

section \<open>Dynamic ensemble combiner (advanced_models.py, VolatilityAwareEnsemble)\<close>

text \<open>
  Python floats are modelled as ideal reals, so "within floating tolerance" becomes
  exact equality. A \<open>Dict[str, float]\<close> is an association list in insertion order;
  a Python dict has pairwise distinct keys, and every comprehension below keeps the keys
  and their order.
\<close>

type_synonym weights = "(string \<times> real) list"

text \<open>The table \<open>volatility_adjustment\<close> of \<open>calculate_dynamic_weights\<close>.\<close>

definition volatility_adjustment :: "real \<Rightarrow> weights" where
  "volatility_adjustment volatility_score =
     [(''prophet'', 1 - volatility_score * 0.3),
      (''xgboost'', 1 - volatility_score * 0.2),
      (''lightgbm'', 1 + volatility_score * 0.2),
      (''lstm'', 1 + volatility_score * 0.3)]"

text \<open>\<open>{model: perf / total_performance for model, perf in model_performances.items()}\<close>\<close>

definition base_weights :: "weights \<Rightarrow> weights" where
  "base_weights model_performances =
     (let total_performance = sum_list (map snd model_performances)
      in map (\<lambda>(model, perf). (model, perf / total_performance)) model_performances)"

text \<open>The loop that fills \<open>adjusted_weights\<close>: the pre-normalization weights.\<close>

definition adjusted_weights :: "real \<Rightarrow> weights \<Rightarrow> weights" where
  "adjusted_weights volatility_score bw =
     map (\<lambda>(model, w).
            (case map_of (volatility_adjustment volatility_score) model of
               Some a \<Rightarrow> (model, w * a)
             | None \<Rightarrow> (model, w))) bw"

text \<open>\<open>{model: 1.0 / num_models for model in d}\<close>\<close>

definition equal_weights :: "weights \<Rightarrow> weights" where
  "equal_weights d = map (\<lambda>(model, _). (model, 1 / real (length d))) d"

definition calculate_dynamic_weights :: "real \<Rightarrow> weights \<Rightarrow> weights" where
  "calculate_dynamic_weights volatility_score model_performances =
     (if model_performances = [] then []
      else if sum_list (map snd model_performances) = 0
        then equal_weights model_performances
      else
        let aw = adjusted_weights volatility_score (base_weights model_performances);
            total_weight = sum_list (map snd aw)
        in if total_weight = 0 then equal_weights aw
           else map (\<lambda>(model, weight). (model, weight / total_weight)) aw)"


section \<open>Python values\<close>

text \<open>
  The column names, anomaly kinds and causes of the source are Korean text. A Python
  \<open>str\<close> is a sequence of Unicode code points, so such text is a list of code points
  here; the substring test \<open>a in b\<close> and the order of \<open>str\<close> are those of the code
  point lists. The ASCII dictionary keys of the model results stay \<open>string\<close>.
\<close>

type_synonym pystr = "nat list"

datatype py_error = KeyError pystr | ValueError | TypeError | IndexError | LibraryError

text \<open>
  A cell of an optional column: \<open>None\<close>, NaN, a number, a flag or text. \<open>PAbsent\<close>
  stands for a column that the table does not have, where \<open>row.get(column, default)\<close>
  gives the default.
\<close>

datatype pyval = PAbsent | PNone | PNaN | PNum real | PBool bool | PStr pystr

definition row_get :: "pyval \<Rightarrow> pyval \<Rightarrow> pyval" where
  "row_get cell dflt = (case cell of PAbsent \<Rightarrow> dflt | _ \<Rightarrow> cell)"

text \<open>
  One row of the input table, with the columns the pipeline reads by name: date (a day
  number), item name, quantity (\<open>None\<close> when the cell is missing, NaN in pandas) and the
  optional covariates event, promotion, weather and temperature.
\<close>

record row =
  date :: int
  item :: pystr
  quantity :: "real option"
  event :: pyval
  promotion :: pyval
  weather :: pyval
  temperature :: pyval

section \<open>Model trainers (model_trainer.py, advanced_models.py)\<close>

text \<open>
  Fitting and predicting are done by external libraries (Prophet, XGBoost, LightGBM,
  Keras); each trainer takes that part as a parameter \<open>fit\<close>, applied to exactly the
  partitions the source passes on. What the trainers themselves compute, the
  minimum-history gate, the holdout split and the result returned below the gate, is
  modelled as written.
\<close>

definition MIN_DATA_DAYS :: nat where
  "MIN_DATA_DAYS = 30"

text \<open>The slices \<open>xs[:-k]\<close> and \<open>xs[-k:]\<close>; for \<open>k = 0\<close> they are \<open>xs[:0]\<close> and \<open>xs[0:]\<close>.\<close>

definition py_upto_last :: "nat \<Rightarrow> 'a list \<Rightarrow> 'a list" where
  "py_upto_last k xs = (if k = 0 then [] else take (length xs - k) xs)"

definition py_last :: "nat \<Rightarrow> 'a list \<Rightarrow> 'a list" where
  "py_last k xs = (if k = 0 then xs else drop (length xs - k) xs)"

text \<open>\<open>min(30, int(n * 0.2))\<close>\<close>

definition holdout_size :: "nat \<Rightarrow> nat" where
  "holdout_size n = min 30 (nat \<lfloor>real n * 0.2\<rfloor>)"

text \<open>\<open>{'Accuracy(%)': -1, 'MAE': -1}\<close>\<close>

definition not_trained_performance :: weights where
  "not_trained_performance = [(''Accuracy(%)'', - 1), (''MAE'', - 1)]"

text \<open>
  \<open>train_prophet_model\<close>: the result is the tuple (model, forecast, test predictions,
  performance). \<open>fit\<close> stands for the body of the \<open>try\<close> block and is \<open>None\<close> when it
  raises.
\<close>

definition prophet_split :: "'a list \<Rightarrow> 'a list \<times> 'a list" where
  "prophet_split prophet_data =
     (let test_days = holdout_size (length prophet_data)
      in (py_upto_last test_days prophet_data, py_last test_days prophet_data))"

definition train_prophet_model ::
  "(('r row_scheme) list \<Rightarrow> ('r row_scheme) list \<Rightarrow> ('m \<times> 'f \<times> real list \<times> weights) option)
   \<Rightarrow> ('r row_scheme) list \<Rightarrow> pystr
   \<Rightarrow> 'm option \<times> 'f option \<times> real list option \<times> weights" where
  "train_prophet_model fit df product_name =
     (let prophet_data = filter (\<lambda>r. item r = product_name) df
      in if length prophet_data < MIN_DATA_DAYS
         then (None, None, None, not_trained_performance)
         else
           let (train_data, test_data) = prophet_split prophet_data
           in (case fit train_data test_data of
                 None \<Rightarrow> (None, None, None, not_trained_performance)
               | Some (model, final_forecast, y_pred_test, performance) \<Rightarrow>
                   (Some model, Some final_forecast, Some y_pred_test, performance)))"

text \<open>\<open>train_xgboost_model\<close>: the result is (model, test predictions, performance).\<close>

definition xgboost_split :: "'a list \<Rightarrow> 'a list \<times> 'a list" where
  "xgboost_split xs = (let test_days = 30 in (py_upto_last test_days xs, py_last test_days xs))"

definition train_xgboost_model ::
  "('x list \<Rightarrow> 'y list \<Rightarrow> 'x list \<Rightarrow> 'y list \<Rightarrow> ('m \<times> real list \<times> weights) option)
   \<Rightarrow> 'x list \<Rightarrow> 'y list \<Rightarrow> 'm option \<times> real list option \<times> weights" where
  "train_xgboost_model fit features target =
     (if length features < MIN_DATA_DAYS + 30
      then (None, None, not_trained_performance)
      else
        let (X_train, X_test) = xgboost_split features;
            (y_train, y_test) = xgboost_split target
        in (case fit X_train y_train X_test y_test of
              None \<Rightarrow> (None, None, not_trained_performance)
            | Some (final_model, y_pred_test, performance) \<Rightarrow>
                (Some final_model, Some y_pred_test, performance)))"

text \<open>
  The result dictionary of \<open>LSTMPredictor.train\<close> and \<open>LightGBMPredictor.train\<close>: a key
  that the dictionary does not hold is \<open>None\<close>. The keys \<open>history\<close>, \<open>best_iteration\<close>
  and \<open>feature_importance\<close> of a trained result come from the library and are left out.
\<close>

record train_result =
  trained :: bool
  message :: "pystr option"
  performance :: "weights option"
  predictions :: "real list option"

text \<open>\<open>{'trained': False, 'message': ...}\<close>, the message being U+B370 U+C774 U+D130, a
  space, U+BD80 U+C871 ("not enough data").\<close>

definition insufficient_data :: train_result where
  "insufficient_data =
     \<lparr>trained = False, message = Some [0xB370, 0xC774, 0xD130, 0x20, 0xBD80, 0xC871],
      performance = None, predictions = None\<rparr>"

definition lightgbm_split :: "'a list \<Rightarrow> nat \<Rightarrow> 'a list \<times> 'a list" where
  "lightgbm_split xs test_size = (py_upto_last test_size xs, py_last test_size xs)"

text \<open>\<open>LightGBMPredictor.train\<close> has no \<open>try\<close>: an exception of \<open>fit\<close> is the result.\<close>

definition lightgbm_train ::
  "('x list \<Rightarrow> 'y list \<Rightarrow> 'x list \<Rightarrow> 'y list \<Rightarrow> py_error + train_result)
   \<Rightarrow> 'x list \<Rightarrow> 'y list \<Rightarrow> py_error + train_result" where
  "lightgbm_train fit features target =
     (if length features < 60 then Inr insufficient_data
      else
        let test_size = holdout_size (length features);
            (X_train, X_test) = lightgbm_split features test_size;
            (y_train, y_test) = lightgbm_split target test_size
        in fit X_train y_train X_test y_test)"

text \<open>\<open>LSTMPredictor\<close>, constructed with its default arguments.\<close>

record lstm_predictor =
  lookback_days :: nat
  forecast_days :: nat

definition LSTMPredictor :: lstm_predictor where
  "LSTMPredictor = \<lparr>lookback_days = 14, forecast_days = 7\<rparr>"

text \<open>
  \<open>prepare_sequences\<close>: for \<open>i\<close> in \<open>range(lookback_days, len(data) - forecast_days + 1)\<close>
  the input window \<open>data[i - lookback_days : i]\<close> and the target window
  \<open>data[i : i + forecast_days]\<close>.
\<close>

definition prepare_sequences :: "lstm_predictor \<Rightarrow> 'a list \<Rightarrow> 'a list list \<times> 'a list list" where
  "prepare_sequences self data =
     (let idx = [lookback_days self ..< length data + 1 - forecast_days self]
      in (map (\<lambda>i. take (lookback_days self) (drop (i - lookback_days self) data)) idx,
          map (\<lambda>i. take (forecast_days self) (drop i data)) idx))"

definition lstm_split :: "'a list \<Rightarrow> nat \<Rightarrow> 'a list \<times> 'a list" where
  "lstm_split xs test_size = (py_upto_last test_size xs, py_last test_size xs)"

text \<open>
  \<open>LSTMPredictor.train\<close>: \<open>fit_transform\<close> is the min-max scaler of the library, \<open>fit\<close>
  the model building, fitting and evaluation; neither is wrapped in a \<open>try\<close>.
\<close>

definition lstm_train ::
  "lstm_predictor \<Rightarrow> (real option list \<Rightarrow> 's list)
   \<Rightarrow> ('s list list \<Rightarrow> 's list list \<Rightarrow> 's list list \<Rightarrow> 's list list \<Rightarrow> py_error + train_result)
   \<Rightarrow> ('r row_scheme) list \<Rightarrow> pystr \<Rightarrow> py_error + train_result" where
  "lstm_train self fit_transform fit df product_name =
     (let product_df = filter (\<lambda>r. item r = product_name) df
      in if length product_df < lookback_days self + forecast_days self + 30
         then Inr insufficient_data
         else
           let scaled_data = fit_transform (map quantity product_df);
               (X, y) = prepare_sequences self scaled_data;
               test_size = holdout_size (length X);
               (X_train, X_test) = lstm_split X test_size;
               (y_train, y_test) = lstm_split y test_size
           in fit X_train y_train X_test y_test)"

text \<open>
  How \<open>process_product\<close> reads the accuracy of the two dictionary results:
  \<open>result.get('performance', {}).get('Accuracy(%)', 0)\<close>.
\<close>

definition result_accuracy :: "train_result \<Rightarrow> real" where
  "result_accuracy result =
     (case performance result of
        None \<Rightarrow> 0
      | Some perf \<Rightarrow> (case map_of perf ''Accuracy(%)'' of None \<Rightarrow> 0 | Some a \<Rightarrow> a))"

section \<open>Anomaly detector (anomaly_analyzer.py, SmartDemandPreprocessor)\<close>

text \<open>The string literals of the module, by code point, with their meaning.\<close>

definition kind_missing :: pystr where \<comment> \<open>"missing"\<close>
  "kind_missing = [0xACB0, 0xCE21]"

definition kind_surge :: pystr where \<comment> \<open>"surge"\<close>
  "kind_surge = [0xAE09, 0xB4F1]"

definition kind_drop :: pystr where \<comment> \<open>"drop"\<close>
  "kind_drop = [0xAE09, 0xAC10]"

definition kind_normal :: pystr where \<comment> \<open>"normal"\<close>
  "kind_normal = [0xC815, 0xC0C1]"

definition cause_stockout :: pystr where \<comment> \<open>"sold out or not recorded"\<close>
  "cause_stockout = [0xD488, 0xC808, 0x20, 0xB610, 0xB294, 0x20, 0xC9D1, 0xACC4, 0x20, 0xB204, 0xB77D]"

definition kw_discount :: pystr where \<comment> \<open>"discount"\<close>
  "kw_discount = [0xD560, 0xC778]"

definition cause_promotion :: pystr where \<comment> \<open>"promotion effect"\<close>
  "cause_promotion = [0xD504, 0xB85C, 0xBAA8, 0xC158, 0x20, 0xC601, 0xD5A5]"

definition cause_bad_weather :: pystr where \<comment> \<open>"bad weather effect"\<close>
  "cause_bad_weather = [0xAE30, 0xC0C1, 0x20, 0xC545, 0xD654, 0x20, 0xC601, 0xD5A5]"

definition cause_hot_weather :: pystr where \<comment> \<open>"hot weather demand"\<close>
  "cause_hot_weather = [0xB354, 0xC6B4, 0x20, 0xB0A0, 0xC528, 0x20, 0xD2B9, 0xC218]"

definition kw_none :: pystr where \<comment> \<open>"none"\<close>
  "kw_none = [0xC5C6, 0xC74C]"

definition cause_special_event :: pystr where \<comment> \<open>"special event demand"\<close>
  "cause_special_event = [0xD2B9, 0xBCC4, 0x20, 0xC774, 0xBCA4, 0xD2B8, 0x20, 0xD2B9, 0xC218]"

definition event_suffix :: pystr where \<comment> \<open>" event effect"\<close>
  "event_suffix = [0x20, 0xC774, 0xBCA4, 0xD2B8, 0x20, 0xC601, 0xD5A5]"

definition cause_unknown :: pystr where \<comment> \<open>"statistical outlier (cause unknown)"\<close>
  "cause_unknown = [0xD1B5, 0xACC4, 0xC801, 0x20, 0xC774, 0xC0C1, 0xCE58, 0x20, 0x28, 0xC6D0, 0xC778, 0x20, 0xBD88, 0xBA85, 0x29]"

text \<open>The keyword lists of \<open>_infer_reason\<close>: rain, snow, heavy rain, heavy snow; clear,
  sunny; holiday, long weekend, World Cup.\<close>

definition kw_bad_weather :: "pystr list" where
  "kw_bad_weather = [ [0xBE44], [0xB208], [0xD3ED, 0xC6B0], [0xD3ED, 0xC124] ]"

definition kw_fair_weather :: "pystr list" where
  "kw_fair_weather = [ [0xB9D1, 0xC74C], [0xD654, 0xCC3D] ]"

definition kw_holiday :: "pystr list" where
  "kw_holiday = [ [0xBA85, 0xC808], [0xC5F0, 0xD734], [0xC6D4, 0xB4DC, 0xCEF5] ]"

text \<open>The required column names: date, item name, quantity.\<close>

definition col_date :: pystr where
  "col_date = [0xB0A0, 0xC9DC]"

definition col_item :: pystr where
  "col_item = [0xD488, 0xBAA9, 0xBA85]"

definition col_quantity :: pystr where
  "col_quantity = [0xD310, 0xB9E4, 0xB7C9]"

text \<open>A data frame: its column names and its rows. A field of a row whose column the
  table does not have is never read.\<close>

record table =
  columns :: "pystr list"
  rows :: "row list"

record preprocessor =
  z_score_threshold :: real

text \<open>\<open>SmartDemandPreprocessor()\<close>, with the default threshold.\<close>

definition SmartDemandPreprocessor :: preprocessor where
  "SmartDemandPreprocessor = \<lparr>z_score_threshold = 2.5\<rparr>"

text \<open>The values of a series that are not missing.\<close>

fun dropna :: "'a option list \<Rightarrow> 'a list" where
  "dropna [] = []"
| "dropna (None # xs) = dropna xs"
| "dropna (Some x # xs) = x # dropna xs"

text \<open>
  \<open>Series.mean()\<close> and \<open>Series.std()\<close> are computed by pandas in floating point. Their
  results are what the module tests and divides by, so the two functions are a parameter
  of the detector: \<open>None\<close> stands for NaN.
\<close>

record pandas =
  series_mean :: "real option list \<Rightarrow> real option"
  series_std :: "real option list \<Rightarrow> real option"

text \<open>
  The two statistics in exact arithmetic: missing values are skipped, the standard
  deviation is the sample one (divisor \<open>n - 1\<close>), and the result is NaN when no value,
  respectively fewer than two values, are present. pandas returns these values where
  every intermediate result is a floating-point number, as for the small integer
  quantities of the examples below; on other inputs its results are rounded, and a
  series of equal values such as 0.1 can have a computed standard deviation that is
  not 0.
\<close>

definition exact_mean :: "real option list \<Rightarrow> real option" where
  "exact_mean series =
     (let xs = dropna series
      in if xs = [] then None else Some (sum_list xs / real (length xs)))"

definition exact_std :: "real option list \<Rightarrow> real option" where
  "exact_std series =
     (let xs = dropna series
      in if length xs < 2 then None
         else
           let m = sum_list xs / real (length xs)
           in Some (sqrt (sum_list (map (\<lambda>x. (x - m)\<^sup>2) xs) / real (length xs - 1))))"

definition exact_pandas :: pandas where
  "exact_pandas = \<lparr>series_mean = exact_mean, series_std = exact_std\<rparr>"

text \<open>\<open>_calculate_z_score\<close>: an operation with a NaN operand gives NaN.\<close>

definition calculate_z_score :: "pandas \<Rightarrow> real option list \<Rightarrow> real option list" where
  "calculate_z_score pd series =
     (let mean = series_mean pd series; std = series_std pd series
      in if std = Some 0 then map (\<lambda>_. Some 0) series
         else map (\<lambda>x. case (x, mean, std) of
                          (Some v, Some m, Some sd) \<Rightarrow> Some ((v - m) / sd)
                        | _ \<Rightarrow> None) series)"

text \<open>
  \<open>anomaly_mask\<close> of \<open>_detect_anomalies_and_missing\<close>, for one row: a comparison with
  NaN is false.
\<close>

definition anomaly_mask :: "preprocessor \<Rightarrow> real option \<Rightarrow> real option \<Rightarrow> bool" where
  "anomaly_mask self qty z =
     ((case z of Some v \<Rightarrow> \<bar>v\<bar> > z_score_threshold self | None \<Rightarrow> False) \<or> qty = None)"

definition define_anomaly_type :: "preprocessor \<Rightarrow> real option \<Rightarrow> real option \<Rightarrow> pystr" where
  "define_anomaly_type self qty z =
     (if qty = None then kind_missing
      else if (case z of Some v \<Rightarrow> v > z_score_threshold self | None \<Rightarrow> False) then kind_surge
      else if (case z of Some v \<Rightarrow> v < - z_score_threshold self | None \<Rightarrow> False) then kind_drop
      else kind_normal)"

text \<open>The substring test \<open>sub in s\<close> of Python.\<close>

fun starts_with :: "'a list \<Rightarrow> 'a list \<Rightarrow> bool" where
  "starts_with [] s = True"
| "starts_with (x # xs) [] = False"
| "starts_with (x # xs) (y # ys) = (x = y \<and> starts_with xs ys)"

fun py_in :: "'a list \<Rightarrow> 'a list \<Rightarrow> bool" where
  "py_in sub [] = (sub = [])"
| "py_in sub (y # ys) = (starts_with sub (y # ys) \<or> py_in sub ys)"

text \<open>
  The tests of \<open>_infer_reason\<close> on a cell. \<open>promotion == 1\<close> holds for the number 1 and
  for \<open>True\<close>. \<open>x > 25\<close> raises TypeError on \<open>None\<close> and on text and is false on NaN.
  \<open>pd.notna(x)\<close> is false on \<open>None\<close> and NaN. \<open>any(h in event for h in keywords)\<close> raises
  TypeError when the event is a number or a flag.
\<close>

definition equals_one :: "pyval \<Rightarrow> bool" where
  "equals_one v = (case v of PNum x \<Rightarrow> x = 1 | PBool b \<Rightarrow> b | _ \<Rightarrow> False)"

definition greater_than :: "pyval \<Rightarrow> real \<Rightarrow> py_error + bool" where
  "greater_than v bound =
     (case v of
        PNum x \<Rightarrow> Inr (x > bound)
      | PBool b \<Rightarrow> Inr ((if b then 1 else 0) > bound)
      | PNaN \<Rightarrow> Inr False
      | _ \<Rightarrow> Inl TypeError)"

definition notna :: "pyval \<Rightarrow> bool" where
  "notna v = (case v of PNone \<Rightarrow> False | PNaN \<Rightarrow> False | _ \<Rightarrow> True)"

definition any_in :: "pystr list \<Rightarrow> pyval \<Rightarrow> py_error + bool" where
  "any_in keywords v =
     (case v of
        PStr s \<Rightarrow> Inr (list_ex (\<lambda>k. py_in k s) keywords)
      | _ \<Rightarrow> Inl TypeError)"

text \<open>
  \<open>_infer_reason\<close>, rule by rule in the order of the source; \<open>anomaly_type\<close> is the cell
  that \<open>_define_anomaly_type\<close> wrote into the row. The last but one result is the
  f-string that quotes the event (39 is the apostrophe).
\<close>

definition infer_reason :: "'r row_scheme \<Rightarrow> pystr \<Rightarrow> py_error + pystr" where
  "infer_reason r anomaly_type =
     (let ev = row_get (event r) PNone;
          promo = row_get (promotion r) PNone;
          wth = row_get (weather r) PNone
      in
      if anomaly_type = kind_missing then Inr cause_stockout
      else if (equals_one promo \<or> (case ev of PStr e \<Rightarrow> py_in kw_discount e | _ \<Rightarrow> False))
              \<and> anomaly_type = kind_surge
        then Inr cause_promotion
      else
        case (case wth of
                PStr w \<Rightarrow>
                  if list_ex (\<lambda>k. py_in k w) kw_bad_weather \<and> anomaly_type = kind_drop
                  then Inr (Some cause_bad_weather)
                  else if list_ex (\<lambda>k. py_in k w) kw_fair_weather
                  then (case greater_than (row_get (temperature r) (PNum 15)) 25 of
                          Inl e \<Rightarrow> Inl e
                        | Inr hot \<Rightarrow>
                            if hot \<and> anomaly_type = kind_surge
                            then Inr (Some cause_hot_weather) else Inr None)
                  else Inr None
              | _ \<Rightarrow> Inr None) of
          Inl e \<Rightarrow> Inl e
        | Inr (Some reason) \<Rightarrow> Inr reason
        | Inr None \<Rightarrow>
            if notna ev \<and> ev \<noteq> PStr kw_none
            then (case any_in kw_holiday ev of
                    Inl e \<Rightarrow> Inl e
                  | Inr holiday \<Rightarrow>
                      if holiday \<and> anomaly_type = kind_surge then Inr cause_special_event
                      else (case ev of
                              PStr e \<Rightarrow> Inr ([39] @ e @ [39] @ event_suffix)
                            | _ \<Rightarrow> Inl TypeError))
            else Inr cause_unknown)"

text \<open>A row of the anomaly log, with the columns of \<open>log_columns\<close>.\<close>

record anomaly_record =
  log_date :: int
  log_item :: pystr
  log_quantity :: "real option"
  log_type :: pystr
  log_event_info :: pyval
  log_reason :: pystr
  log_z_score :: "real option"

text \<open>Applying a function that may raise to every element: the first exception wins.\<close>

fun traverse :: "('a \<Rightarrow> py_error + 'b) \<Rightarrow> 'a list \<Rightarrow> py_error + 'b list" where
  "traverse f [] = Inr []"
| "traverse f (x # xs) =
     (case f x of
        Inl e \<Rightarrow> Inl e
      | Inr y \<Rightarrow> (case traverse f xs of Inl e \<Rightarrow> Inl e | Inr ys \<Rightarrow> Inr (y # ys)))"

text \<open>\<open>.get('event column', all-NaN series).fillna('none')\<close>\<close>

definition event_info :: "pyval \<Rightarrow> pyval" where
  "event_info v = (case v of PAbsent \<Rightarrow> PStr kw_none | PNone \<Rightarrow> PStr kw_none
                   | PNaN \<Rightarrow> PStr kw_none | _ \<Rightarrow> v)"

definition log_entry :: "preprocessor \<Rightarrow> row \<times> real option \<Rightarrow> py_error + anomaly_record" where
  "log_entry self rz =
     (let r = fst rz; z = snd rz;
          anomaly_type = define_anomaly_type self (quantity r) z
      in case infer_reason r anomaly_type of
           Inl e \<Rightarrow> Inl e
         | Inr reason \<Rightarrow>
             Inr \<lparr>log_date = date r, log_item = item r, log_quantity = quantity r,
                  log_type = anomaly_type, log_event_info = event_info (event r),
                  log_reason = reason, log_z_score = z\<rparr>)"

definition detect_anomalies_and_missing ::
  "pandas \<Rightarrow> preprocessor \<Rightarrow> row list \<Rightarrow> py_error + anomaly_record list" where
  "detect_anomalies_and_missing pd self group_df =
     (let z = calculate_z_score pd (map quantity group_df);
          anomalies_df =
            filter (\<lambda>rz. anomaly_mask self (quantity (fst rz)) (snd rz)) (zip group_df z)
      in if anomalies_df = [] then Inr [] else traverse (log_entry self) anomalies_df)"

text \<open>
  A row of the processed table: the input row and the four joined columns, each of which
  may be null (\<open>None\<close>) straight after the left join.
\<close>

record feature_row = row +
  is_anomaly :: "bool option"
  anomaly_type :: "pystr option"
  anomaly_reason :: "pystr option"
  anomaly_score :: "real option"

definition with_features ::
  "row \<Rightarrow> bool option \<Rightarrow> pystr option \<Rightarrow> pystr option \<Rightarrow> real option \<Rightarrow> feature_row" where
  "with_features r a t c s =
     \<lparr>date = date r, item = item r, quantity = quantity r, event = event r,
      promotion = promotion r, weather = weather r, temperature = temperature r,
      is_anomaly = a, anomaly_type = t, anomaly_reason = c, anomaly_score = s\<rparr>"

text \<open>\<open>pd.merge(df, anomaly_features, on=[date, item], how='left')\<close>: every row of the
  left table, in order, once per matching log row, or once with nulls when none matches.\<close>

definition merge_left :: "row list \<Rightarrow> anomaly_record list \<Rightarrow> feature_row list" where
  "merge_left df anomaly_features =
     concat (map (\<lambda>r.
        let ms = filter (\<lambda>a. log_date a = date r \<and> log_item a = item r) anomaly_features
        in if ms = [] then [with_features r None None None None]
           else map (\<lambda>a. with_features r (Some True) (Some (log_type a))
                            (Some (log_reason a)) (log_z_score a)) ms) df)"

text \<open>\<open>column.fillna(v, inplace=True)\<close> on a column of the merged frame, which updates the
  frame (pandas before version 3), for one cell.\<close>

definition fillna :: "'a \<Rightarrow> 'a option \<Rightarrow> 'a option" where
  "fillna v x = (case x of None \<Rightarrow> Some v | Some y \<Rightarrow> Some y)"

definition create_features_from_log :: "row list \<Rightarrow> anomaly_record list \<Rightarrow> feature_row list" where
  "create_features_from_log df anomaly_log =
     (if anomaly_log = []
      then map (\<lambda>r. with_features r (Some False) (Some kind_normal) (Some kind_normal) (Some 0)) df
      else map (\<lambda>m. m\<lparr>is_anomaly := fillna False (is_anomaly m),
                        anomaly_type := fillna kind_normal (anomaly_type m),
                        anomaly_reason := fillna kind_normal (anomaly_reason m),
                        anomaly_score := fillna 0 (anomaly_score m)\<rparr>)
             (merge_left df anomaly_log))"

text \<open>
  \<open>df.groupby(item column)\<close>: one group per item name, in the order of the names, each
  with its rows in table order.
\<close>

definition groupby_item :: "row list \<Rightarrow> (pystr \<times> row list) list" where
  "groupby_item df =
     map (\<lambda>name. (name, filter (\<lambda>r. item r = name) df)) (sort (remdups (map item df)))"

text \<open>Running a per-group function over all groups and concatenating the logs.\<close>

fun collect :: "('a \<Rightarrow> py_error + 'b list) \<Rightarrow> 'a list \<Rightarrow> py_error + 'b list" where
  "collect f [] = Inr []"
| "collect f (g # gs) =
     (case f g of
        Inl e \<Rightarrow> Inl e
      | Inr l \<Rightarrow> (case collect f gs of Inl e \<Rightarrow> Inl e | Inr ls \<Rightarrow> Inr (l @ ls)))"

text \<open>
  \<open>SmartDemandPreprocessor.process\<close>: the check of the required columns, the sort by
  item and date, the detection per item and the join of the log onto the sorted table.
\<close>

definition process ::
  "pandas \<Rightarrow> preprocessor \<Rightarrow> table
   \<Rightarrow> py_error + feature_row list \<times> anomaly_record list" where
  "process pd self df =
     (if \<not> list_all (\<lambda>col. col \<in> set (columns df)) [col_date, col_item, col_quantity]
      then Inl ValueError
      else
        let sorted = sort_key (\<lambda>r. (item r, date r)) (rows df)
        in case collect (\<lambda>(product_name, group). detect_anomalies_and_missing pd self group)
                  (groupby_item sorted) of
             Inl e \<Rightarrow> Inl e
           | Inr anomaly_log \<Rightarrow> Inr (create_features_from_log sorted anomaly_log, anomaly_log))"

section \<open>Factor synthesizer (external_factor_detector.py, ExternalFactorDetector)\<close>

text \<open>
  \<open>np.mean\<close> and \<open>np.std\<close> (the population standard deviation) of the quantity column:
  NaN, here \<open>None\<close>, when a value is missing or the array is empty.
\<close>

definition np_mean :: "real option list \<Rightarrow> real option" where
  "np_mean sales =
     (case those sales of
        None \<Rightarrow> None
      | Some xs \<Rightarrow> if xs = [] then None else Some (sum_list xs / real (length xs)))"

definition np_std :: "real option list \<Rightarrow> real option" where
  "np_std sales =
     (case those sales of
        None \<Rightarrow> None
      | Some xs \<Rightarrow>
          if xs = [] then None
          else
            let m = sum_list xs / real (length xs)
            in Some (sqrt (sum_list (map (\<lambda>x. (x - m)\<^sup>2) xs) / real (length xs))))"

text \<open>
  The result of \<open>_analyze_volatility\<close>: the coefficient of variation and the level
  ("very stable", "stable", "volatile", "very volatile"). The two rolling statistics of
  the dictionary are read by nobody and are left out.
\<close>

record volatility_info =
  cv :: real
  level :: pystr

definition analyze_volatility :: "real option list \<Rightarrow> volatility_info" where
  "analyze_volatility sales =
     (let c = (case np_mean sales of
                 Some m \<Rightarrow>
                   if m > 0 then (case np_std sales of Some sd \<Rightarrow> sd / m | None \<Rightarrow> 0) else 0
               | None \<Rightarrow> 0);
          volatility_level =
            (if c < 0.2 then [0xB9E4, 0xC6B0, 0x20, 0xC548, 0xC815]
             else if c < 0.5 then [0xC548, 0xC815]
             else if c < 1.0 then [0xBCC0, 0xB3D9, 0xC131, 0x20, 0xC788, 0xC74C]
             else [0xB9E4, 0xC6B0, 0x20, 0xBCC0, 0xB3D9, 0xC801])
      in \<lparr>cv = c, level = volatility_level\<rparr>)"

text \<open>The calendar columns that \<open>create_date_features\<close> derives from the date: month,
  ISO week, day of month, weekday.\<close>

definition col_month :: pystr where
  "col_month = [0xC6D4]"

definition col_week :: pystr where
  "col_week = [0xC8FC, 0xCC28]"

definition col_day :: pystr where
  "col_day = [0xC77C]"

definition col_weekday :: pystr where
  "col_weekday = [0xC694, 0xC77C]"

text \<open>The columns that the seven steps of \<open>detect_and_create_factors\<close> assign, in order.\<close>

definition factor_columns :: "pystr list" where
  "factor_columns =
     [ [0xC6D4, 0xBCC4, 0x5F, 0xD3B8, 0xCC28],
      [0xC8FC, 0xCC28, 0xBCC4, 0x5F, 0xD3B8, 0xCC28],
      [0xC5EC, 0xB984, 0x5F, 0xD2B9, 0xC218],
      [0xACA8, 0xC6B8, 0x5F, 0xD2B9, 0xC218],
      [0xC77C, 0xAC04, 0x5F, 0xBCC0, 0xD654, 0xC728],
      [0xAE09, 0xB4F1, 0x5F, 0xC2E0, 0xD638],
      [0xAE09, 0xB77D, 0x5F, 0xC2E0, 0xD638],
      [0xBCC0, 0xD654, 0x5F, 0xAC15, 0xB3C4],
      [0xC8FC, 0xAC04, 0x5F, 0xC0AC, 0xC774, 0xD074],
      [0xC8FC, 0xAC04, 0x5F, 0xC0AC, 0xC774, 0xD074, 0x5F, 0x63, 0x6F, 0x73],
      [0xACA9, 0xC8FC, 0x5F, 0xC0AC, 0xC774, 0xD074],
      [0xC6D4, 0xAC04, 0x5F, 0xC0AC, 0xC774, 0xD074],
      [0x4D, 0x41, 0x37],
      [0x4D, 0x41, 0x31, 0x34],
      [0xD2B8, 0xB80C, 0xB4DC, 0x5F, 0xBC29, 0xD5A5],
      [0xD2B8, 0xB80C, 0xB4DC, 0x5F, 0xAC15, 0xB3C4],
      [0xD2B8, 0xB80C, 0xB4DC, 0x5F, 0xC804, 0xD658],
      [0xC694, 0xC77C, 0x5F, 0xD6A8, 0xACFC, 0x5F, 0xBE44, 0xC728],
      [0xC8FC, 0xB9D0, 0x5F, 0xD6A8, 0xACFC],
      [0xC6D4, 0xC694, 0xC77C, 0x5F, 0xD6A8, 0xACFC],
      [0xAE08, 0xC694, 0xC77C, 0x5F, 0xD6A8, 0xACFC],
      [0xC608, 0xCE21, 0x5F, 0xC2E0, 0xB8B0, 0xB3C4],
      [0xB370, 0xC774, 0xD130, 0x5F, 0xD488, 0xC9C8, 0x5F, 0xC810, 0xC218] ]"

text \<open>\<open>df[name] = ...\<close> for each name: a new column goes to the end, an existing one is
  overwritten in place.\<close>

definition assign_columns :: "pystr list \<Rightarrow> pystr list \<Rightarrow> pystr list" where
  "assign_columns cols names = cols @ filter (\<lambda>c. c \<notin> set cols) (remdups names)"

text \<open>
  \<open>detect_and_create_factors\<close>, at the level of the columns: reading a column that the
  table does not have raises KeyError, in the order in which the steps read them. The
  values of the columns it adds are not modelled.
\<close>

definition detect_and_create_factors ::
  "table \<Rightarrow> pystr \<Rightarrow> py_error + table \<times> volatility_info" where
  "detect_and_create_factors df product_name =
     (if col_item \<notin> set (columns df) then Inl (KeyError col_item)
      else
        let product_df = filter (\<lambda>r. item r = product_name) (rows df)
        in if col_quantity \<notin> set (columns df) then Inl (KeyError col_quantity)
           else if col_month \<notin> set (columns df) then Inl (KeyError col_month)
           else if col_week \<notin> set (columns df) then Inl (KeyError col_week)
           else if col_day \<notin> set (columns df) then Inl (KeyError col_day)
           else if col_weekday \<notin> set (columns df) then Inl (KeyError col_weekday)
           else Inr (\<lparr>columns = assign_columns (columns df) factor_columns, rows = product_df\<rparr>,
                     analyze_volatility (map quantity product_df)))"

section \<open>Pipeline orchestrator (parallel_processor.py)\<close>

text \<open>\<open>d.get(key, default)\<close> on a dictionary.\<close>

definition dict_get :: "('k \<times> 'v) list \<Rightarrow> 'k \<Rightarrow> 'v \<Rightarrow> 'v" where
  "dict_get d k dflt = (case map_of d k of None \<Rightarrow> dflt | Some v \<Rightarrow> v)"

text \<open>
  \<open>ensemble.weights\<close> after \<open>calculate_dynamic_weights\<close>: the attribute is assigned only
  on the path that normalizes; the fallback paths return without assigning and leave the
  empty dictionary of \<open>__init__\<close>.
\<close>

definition stored_weights :: "real \<Rightarrow> weights \<Rightarrow> weights" where
  "stored_weights volatility_score model_performances =
     (if model_performances = [] then []
      else if sum_list (map snd model_performances) = 0 then []
      else if sum_list (map snd (adjusted_weights volatility_score
                                   (base_weights model_performances))) = 0 then []
      else calculate_dynamic_weights volatility_score model_performances)"

text \<open>
  \<open>ensemble_predict\<close>: the weighted sum of the prediction series, which the caller has
  cut to one length. The first series gives the shape; without any series the index 0
  raises IndexError.
\<close>

definition ensemble_predict ::
  "(string \<times> real list) list \<Rightarrow> real \<Rightarrow> weights \<Rightarrow> py_error + real list" where
  "ensemble_predict preds volatility_score model_performances =
     (let ws = calculate_dynamic_weights volatility_score model_performances
      in case preds of
           [] \<Rightarrow> Inl IndexError
         | first # _ \<Rightarrow>
             Inr (foldl (\<lambda>ensemble_pred (model, pred).
                          case map_of ws model of
                            Some w \<Rightarrow> map2 (+) ensemble_pred (map (\<lambda>p. p * w) pred)
                          | None \<Rightarrow> ensemble_pred)
                    (map (\<lambda>_. 0) (snd first)) preds))"

text \<open>
  The parts of the per-item pipeline that libraries compute: the statistics of pandas,
  the feature matrix and the
  target of \<open>create_xgboost_features\<close>, the four fits, and the tail of \<open>process_product\<close>
  (the error measures of the ensemble and the blended 7-day forecast), which gives the
  ensemble's accuracy and MAE and the forecast, if any.
\<close>

record ('x, 'pm, 'pf, 'xm, 'fc) library =
  pandas_library :: pandas
  create_xgboost_features ::
    "feature_row list \<Rightarrow> pystr \<Rightarrow> py_error + 'x list \<times> real option list"
  prophet_fit ::
    "feature_row list \<Rightarrow> feature_row list \<Rightarrow> ('pm \<times> 'pf \<times> real list \<times> weights) option"
  xgboost_fit ::
    "'x list \<Rightarrow> real option list \<Rightarrow> 'x list \<Rightarrow> real option list
     \<Rightarrow> ('xm \<times> real list \<times> weights) option"
  lstm_fit_transform :: "real option list \<Rightarrow> real list"
  lstm_fit ::
    "real list list \<Rightarrow> real list list \<Rightarrow> real list list \<Rightarrow> real list list
     \<Rightarrow> py_error + train_result"
  lightgbm_fit ::
    "'x list \<Rightarrow> real option list \<Rightarrow> 'x list \<Rightarrow> real option list
     \<Rightarrow> py_error + train_result"
  evaluate_and_forecast ::
    "real option list \<Rightarrow> real list \<Rightarrow> weights \<Rightarrow> 'xm option \<Rightarrow> 'pf option
     \<Rightarrow> py_error + weights \<times> 'fc option"

text \<open>The dictionary that \<open>process_product\<close> returns for an item; \<open>ensemble_weights\<close> is
  the entry \<open>weights\<close> of \<open>ensemble_performance\<close>, \<open>ensemble_scores\<close> its accuracy and MAE.\<close>

record 'fc item_result =
  prophet_performance :: weights
  xgboost_performance :: weights
  lstm_performance :: weights
  lightgbm_performance :: weights
  ensemble_scores :: weights
  ensemble_weights :: weights
  ensemble_forecast :: "'fc option"
  result_anomaly_log :: "anomaly_record list"

text \<open>
  The body of the \<open>try\<close> block of \<open>process_product\<close>, step by step. The volatility score
  handed to the combiner is \<open>volatility_info['cv']\<close>.
\<close>

definition product_pipeline ::
  "('x, 'pm, 'pf, 'xm, 'fc) library \<Rightarrow> pystr \<times> table \<Rightarrow> py_error + 'fc item_result" where
  "product_pipeline lib args =
     (let product_name = fst args; df_product_orig = snd args
      in
      case detect_and_create_factors df_product_orig product_name of
        Inl e \<Rightarrow> Inl e
      | Inr (df_enhanced, volatility_info) \<Rightarrow>
      case process (pandas_library lib) SmartDemandPreprocessor df_enhanced of
        Inl e \<Rightarrow> Inl e
      | Inr (df_processed, anomaly_log) \<Rightarrow>
      case create_xgboost_features lib df_processed product_name of
        Inl e \<Rightarrow> Inl e
      | Inr (features, target) \<Rightarrow>
      let (prophet_model, prophet_fc, prophet_test_pred, prophet_perf) =
            train_prophet_model (prophet_fit lib) df_processed product_name;
          (xgb_model, xgb_test_pred, xgb_perf) =
            train_xgboost_model (xgboost_fit lib) features target
      in
      case lstm_train LSTMPredictor (lstm_fit_transform lib) (lstm_fit lib)
             df_processed product_name of
        Inl e \<Rightarrow> Inl e
      | Inr lstm_result \<Rightarrow>
      case lightgbm_train (lightgbm_fit lib) features target of
        Inl e \<Rightarrow> Inl e
      | Inr lgbm_result \<Rightarrow>
      let all_performances =
            [(''prophet'', dict_get prophet_perf ''Accuracy(%)'' 0),
             (''xgboost'', dict_get xgb_perf ''Accuracy(%)'' 0),
             (''lstm'', result_accuracy lstm_result),
             (''lightgbm'', result_accuracy lgbm_result)];
          all_test_preds =
            [(''prophet'', case prophet_test_pred of Some p \<Rightarrow> p | None \<Rightarrow> []),
             (''xgboost'', case xgb_test_pred of Some p \<Rightarrow> p | None \<Rightarrow> []),
             (''lstm'', case predictions lstm_result of Some p \<Rightarrow> p | None \<Rightarrow> []),
             (''lightgbm'', case predictions lgbm_result of Some p \<Rightarrow> p | None \<Rightarrow> [])];
          valid_preds = filter (\<lambda>(name, pred). length pred > 0) all_test_preds
      in
      if valid_preds = [] then Inl ValueError
      else
        let min_len = Min (set (map (\<lambda>(name, pred). length pred) valid_preds));
            all_predictions = map (\<lambda>(name, pred). (name, py_last min_len pred)) valid_preds;
            performance_for_ensemble =
              filter (\<lambda>(model_name, perf). model_name \<in> set (map fst all_predictions))
                all_performances;
            y_true_test = py_last min_len target
        in
        case ensemble_predict all_predictions (cv volatility_info) performance_for_ensemble of
          Inl e \<Rightarrow> Inl e
        | Inr ensemble_test_pred \<Rightarrow>
        let ws = stored_weights (cv volatility_info) performance_for_ensemble
        in
        case evaluate_and_forecast lib y_true_test ensemble_test_pred ws xgb_model prophet_fc of
          Inl e \<Rightarrow> Inl e
        | Inr (scores, forecast) \<Rightarrow>
            Inr \<lparr>prophet_performance = prophet_perf,
                 xgboost_performance = xgb_perf,
                 lstm_performance =
                   (case performance lstm_result of Some p \<Rightarrow> p | None \<Rightarrow> []),
                 lightgbm_performance =
                   (case performance lgbm_result of Some p \<Rightarrow> p | None \<Rightarrow> []),
                 ensemble_scores = scores,
                 ensemble_weights = ws,
                 ensemble_forecast = forecast,
                 result_anomaly_log = anomaly_log\<rparr>)"

text \<open>\<open>process_product\<close>: \<open>except Exception\<close> turns every exception of the body into the
  empty dictionary, here \<open>None\<close>.\<close>

definition process_product ::
  "('x, 'pm, 'pf, 'xm, 'fc) library \<Rightarrow> pystr \<times> table \<Rightarrow> pystr \<times> 'fc item_result option" where
  "process_product lib args =
     (case product_pipeline lib args of
        Inl e \<Rightarrow> (fst args, None)
      | Inr result \<Rightarrow> (fst args, Some result))"

text \<open>The loop of \<open>run_parallel_processing\<close> over the results: an empty dictionary is
  skipped, a non-empty anomaly log is collected.\<close>

fun kept_results :: "(pystr \<times> 'r option) list \<Rightarrow> (pystr \<times> 'r) list" where
  "kept_results [] = []"
| "kept_results ((name, None) # rs) = kept_results rs"
| "kept_results ((name, Some data) # rs) = (name, data) # kept_results rs"

record 'fc batch_result =
  models_data :: "(pystr \<times> 'fc item_result) list"
  total_anomaly_log :: "anomaly_record list"

text \<open>
  \<open>run_parallel_processing\<close>: grouping by the item column raises KeyError when the table
  does not have it; every group is a table with the columns of the input.
\<close>

definition run_parallel_processing ::
  "('x, 'pm, 'pf, 'xm, 'fc) library \<Rightarrow> table \<Rightarrow> py_error + 'fc batch_result" where
  "run_parallel_processing lib df =
     (if col_item \<notin> set (columns df) then Inl (KeyError col_item)
      else
        let tasks = map (\<lambda>(name, group). (name, \<lparr>columns = columns df, rows = group\<rparr>))
                      (groupby_item (rows df));
            results = kept_results (map (process_product lib) tasks)
        in Inr \<lparr>models_data = results,
                total_anomaly_log = concat (map (\<lambda>(name, data). result_anomaly_log data) results)\<rparr>)"

section \<open>Properties of the ensemble combiner\<close>

lemma fst_equal_weights: "map fst (equal_weights d) = map fst d"
  by (simp add: equal_weights_def case_prod_beta)

lemma sum_equal_weights: "d \<noteq> [] \<Longrightarrow> sum_list (map snd (equal_weights d)) = 1"
  by (simp add: equal_weights_def case_prod_beta o_def sum_list_triv)

lemma nonneg_equal_weights: "(m, w) \<in> set (equal_weights d) \<Longrightarrow> 0 \<le> w"
  by (auto simp: equal_weights_def)

lemma fst_base_weights: "map fst (base_weights ps) = map fst ps"
  by (simp add: base_weights_def case_prod_beta Let_def)

lemma fst_adjusted_weights: "map fst (adjusted_weights v bw) = map fst bw"
  by (simp add: adjusted_weights_def case_prod_beta o_def split: option.splits)

lemma fst_calculate_dynamic_weights:
  "map fst (calculate_dynamic_weights v ps) = map fst ps"
  by (simp add: calculate_dynamic_weights_def Let_def fst_equal_weights
      fst_adjusted_weights fst_base_weights case_prod_beta o_def)

lemma sum_normalized:
  "sum_list (map snd (map (\<lambda>(model, weight). (model, weight / t)) aw))
     = sum_list (map snd aw) / (t::real)"
  by (induction aw) (auto simp: add_divide_distrib)

lemma sum_calculate_dynamic_weights:
  assumes ne: "ps \<noteq> []"
  shows "sum_list (map snd (calculate_dynamic_weights v ps)) = 1"
proof -
  have "adjusted_weights v (base_weights ps) \<noteq> []"
    using ne by (simp add: adjusted_weights_def base_weights_def Let_def)
  with ne show ?thesis
    by (simp add: calculate_dynamic_weights_def Let_def sum_equal_weights sum_normalized
        del: map_map)
qed

lemma sum_list_pos_snd:
  "ps \<noteq> [] \<Longrightarrow> \<forall>(m, p) \<in> set ps. 0 < (p::real) \<Longrightarrow> 0 < sum_list (map snd ps)"
proof (induction ps)
  case Nil
  then show ?case by simp
next
  case (Cons a ps)
  have a: "0 < snd a" using Cons.prems by (cases a) simp
  show ?case
  proof (cases "ps = []")
    case True
    with a show ?thesis by simp
  next
    case False
    with Cons have "0 < sum_list (map snd ps)" by simp
    with a show ?thesis by simp
  qed
qed

lemma sum_list_nonneg_snd:
  "\<forall>(m, p) \<in> set ps. 0 \<le> (p::real) \<Longrightarrow> 0 \<le> sum_list (map snd ps)"
  by (induction ps) auto

lemma sum_list_zero_snd:
  "\<forall>(m, p) \<in> set ps. p = (0::real) \<Longrightarrow> sum_list (map snd ps) = 0"
  by (induction ps) auto

lemma multiplier_nonneg:
  assumes "- (10 / 3) \<le> v" and "v \<le> 10 / 3"
    and "map_of (volatility_adjustment v) m = Some a"
  shows "0 \<le> a"
  using assms by (auto simp: volatility_adjustment_def split: if_splits)

lemma base_weights_pos:
  assumes pos: "\<forall>(m, p) \<in> set ps. 0 < p" and mem: "(m, w) \<in> set (base_weights ps)"
  shows "0 < w"
proof -
  from mem have ne: "ps \<noteq> []" by (auto simp: base_weights_def)
  have t: "0 < sum_list (map snd ps)" using sum_list_pos_snd[OF ne pos] .
  from mem obtain p where "(m, p) \<in> set ps" and "w = p / sum_list (map snd ps)"
    by (auto simp: base_weights_def Let_def)
  with pos t show ?thesis by auto
qed

lemma adjusted_weights_nonneg:
  assumes lo: "- (10 / 3) \<le> v" and hi: "v \<le> 10 / 3"
    and bw: "\<forall>(m, w) \<in> set bw. 0 < w"
    and mem: "(m, w) \<in> set (adjusted_weights v bw)"
  shows "0 \<le> w"
proof -
  from mem obtain w0 where in0: "(m, w0) \<in> set bw"
    and w: "w = (case map_of (volatility_adjustment v) m of Some a \<Rightarrow> w0 * a | None \<Rightarrow> w0)"
    by (auto simp: adjusted_weights_def split: option.splits)
  from in0 bw have "0 < w0" by auto
  then show ?thesis
    using w multiplier_nonneg[OF lo hi] by (auto split: option.splits)
qed

lemma nonneg_calculate_dynamic_weights:
  assumes pos: "\<forall>(m, p) \<in> set ps. 0 < p" and lo: "- (10 / 3) \<le> v" and hi: "v \<le> 10 / 3"
    and mem: "(m, w) \<in> set (calculate_dynamic_weights v ps)"
  shows "0 \<le> w"
proof -
  let ?aw = "adjusted_weights v (base_weights ps)"
  have bw: "\<forall>(m, w) \<in> set (base_weights ps). 0 < w"
    using base_weights_pos[OF pos] by auto
  have aw: "\<forall>(m, w) \<in> set ?aw. 0 \<le> w"
    using adjusted_weights_nonneg[OF lo hi bw] by auto
  have tw: "0 \<le> sum_list (map snd ?aw)" using sum_list_nonneg_snd[OF aw] .
  show ?thesis
  proof (cases "ps = [] \<or> sum_list (map snd ps) = 0 \<or> sum_list (map snd ?aw) = 0")
    case True
    then show ?thesis using mem
      by (auto simp: calculate_dynamic_weights_def Let_def dest: nonneg_equal_weights
          split: if_splits)
  next
    case False
    with mem obtain w0 where "(m, w0) \<in> set ?aw" and "w = w0 / sum_list (map snd ?aw)"
      by (auto simp: calculate_dynamic_weights_def Let_def)
    with aw tw show ?thesis by auto
  qed
qed


text \<open>
  Claim C1, as stated, quantifies over every volatility score. At the score 10 (the
  coefficient of variation of 100 days without sales followed by one day with sales)
  the multiplier of \<open>prophet\<close> is \<open>1 - 10 * 0.3 = -2\<close> and its normalized weight is
  negative, although both accuracies are strictly positive.
\<close>

theorem ensemble_weight_negative_counterexample:
  "calculate_dynamic_weights 10 [(''prophet'', 50), (''lstm'', 50)]
     = [(''prophet'', - 1), (''lstm'', 2)]"
  by (simp add: calculate_dynamic_weights_def adjusted_weights_def base_weights_def
      volatility_adjustment_def equal_weights_def)

text \<open>
  Claim C1, amended: for every non-empty performance mapping whose accuracies are all
  strictly positive and every volatility score \<open>v\<close> with \<open>-10/3 \<le> v \<le> 10/3\<close> (which
  contains the documented range from 0 to 1), \<open>calculate_dynamic_weights\<close> returns one
  weight per input model, in the same order; the weights sum to 1 and each weight is
  non-negative.
\<close>

theorem ensemble_weights_sum_nonneg:
  assumes "ps \<noteq> []" and "\<forall>(m, p) \<in> set ps. 0 < p"
    and "- (10 / 3) \<le> v" and "v \<le> 10 / 3"
  shows "map fst (calculate_dynamic_weights v ps) = map fst ps
       \<and> sum_list (map snd (calculate_dynamic_weights v ps)) = 1
       \<and> (\<forall>(m, w) \<in> set (calculate_dynamic_weights v ps). 0 \<le> w)"
  using fst_calculate_dynamic_weights sum_calculate_dynamic_weights[OF assms(1)]
    nonneg_calculate_dynamic_weights[OF assms(2,3,4)] by auto

theorem ensemble_weights_sum_nonneg_witness:
  "[(''prophet'', 80), (''lstm'', 60 :: real)] \<noteq> []
   \<and> (0 :: real) < 80 \<and> (0 :: real) < 60
   \<and> - (10 / 3) \<le> (1 / 2 :: real) \<and> (1 / 2 :: real) \<le> 10 / 3
   \<and> map fst (calculate_dynamic_weights (1 / 2) [(''prophet'', 80), (''lstm'', 60)])
        = [''prophet'', ''lstm'']
   \<and> sum_list (map snd (calculate_dynamic_weights (1 / 2) [(''prophet'', 80), (''lstm'', 60)]))
        = 1
   \<and> list_all (\<lambda>(m, w). 0 \<le> w)
        (calculate_dynamic_weights (1 / 2) [(''prophet'', 80), (''lstm'', 60)])"
proof -
  have h1: "[(''prophet'', 80), (''lstm'', 60 :: real)] \<noteq> []" by simp
  have h2: "\<forall>(m, p) \<in> set [(''prophet'', 80), (''lstm'', 60 :: real)]. 0 < p" by simp
  have h3: "- (10 / 3) \<le> (1 / 2 :: real)" by simp
  have h4: "(1 / 2 :: real) \<le> 10 / 3" by simp
  show ?thesis
    using h1 h2 h3 h4 ensemble_weights_sum_nonneg[OF h1 h2 h3 h4]
    by (simp add: list_all_iff)
qed

text \<open>
  Claim C5: for every non-empty performance mapping in which every accuracy is 0, the
  combiner returns the weight \<open>1/n\<close> for each of the \<open>n\<close> models, whatever the
  volatility score.
\<close>

theorem ensemble_equal_weights_when_all_zero:
  assumes "ps \<noteq> []" and "\<forall>(m, p) \<in> set ps. p = 0"
  shows "calculate_dynamic_weights v ps = map (\<lambda>(m, p). (m, 1 / real (length ps))) ps"
  using assms sum_list_zero_snd[OF assms(2)]
  by (simp add: calculate_dynamic_weights_def equal_weights_def)

theorem ensemble_equal_weights_when_all_zero_witness:
  "[(''prophet'', 0), (''xgboost'', 0), (''lstm'', 0 :: real)] \<noteq> []
   \<and> list_all (\<lambda>(m, p). p = 0) [(''prophet'', 0), (''xgboost'', 0), (''lstm'', 0 :: real)]
   \<and> calculate_dynamic_weights (7 / 10) [(''prophet'', 0), (''xgboost'', 0), (''lstm'', 0)]
        = [(''prophet'', 1 / 3), (''xgboost'', 1 / 3), (''lstm'', 1 / 3)]"
proof -
  have h1: "[(''prophet'', 0), (''xgboost'', 0), (''lstm'', 0 :: real)] \<noteq> []" by simp
  have h2: "\<forall>(m, p) \<in> set [(''prophet'', 0), (''xgboost'', 0), (''lstm'', 0 :: real)]. p = 0"
    by simp
  show ?thesis
    using h1 h2 ensemble_equal_weights_when_all_zero[OF h1 h2, of "7 / 10"] by simp
qed




section \<open>Properties of the model trainers\<close>

lemma holdout_size_eq: "holdout_size n = min 30 (n div 5)"
proof -
  have "real n * 0.2 = real n / real 5" by simp
  then have "\<lfloor>real n * 0.2\<rfloor> = int (n div 5)"
    by (simp only: floor_divide_of_nat_eq)
  then show ?thesis by (simp add: holdout_size_def)
qed

lemma py_split_nonzero:
  "k \<noteq> 0 \<Longrightarrow> py_upto_last k xs = take (length xs - k) xs"
  "k \<noteq> 0 \<Longrightarrow> py_last k xs = drop (length xs - k) xs"
  by (simp_all add: py_upto_last_def py_last_def)

lemma length_prepare_sequences:
  "length (fst (prepare_sequences self data))
     = length data + 1 - forecast_days self - lookback_days self"
  by (simp add: prepare_sequences_def Let_def)

lemma xgboost_split_eq: "xgboost_split g = (take (length g - 30) g, drop (length g - 30) g)"
  by (simp add: xgboost_split_def py_split_nonzero)

lemma length_prepare_sequences_snd:
  "length (snd (prepare_sequences self data))
     = length data + 1 - forecast_days self - lookback_days self"
  by (simp add: prepare_sequences_def Let_def)

lemma holdout_size_nonzero: "5 \<le> n \<Longrightarrow> holdout_size n \<noteq> 0"
  by (simp add: holdout_size_eq)

lemma prophet_trainer_window:
  assumes "MIN_DATA_DAYS \<le> length (filter (\<lambda>r. item r = product_name) df)"
  shows "train_prophet_model fit df product_name =
     (let prophet_data = filter (\<lambda>r. item r = product_name) df;
          n = length prophet_data; k = min 30 (n div 5)
      in case fit (take (n - k) prophet_data) (drop (n - k) prophet_data) of
           None \<Rightarrow> (None, None, None, not_trained_performance)
         | Some (model, final_forecast, y_pred_test, perf) \<Rightarrow>
             (Some model, Some final_forecast, Some y_pred_test, perf))"
proof -
  let ?d = "filter (\<lambda>r. item r = product_name) df"
  have "holdout_size (length ?d) \<noteq> 0"
    using assms by (intro holdout_size_nonzero) (simp add: MIN_DATA_DAYS_def)
  then have "prophet_split ?d = (take (length ?d - holdout_size (length ?d)) ?d,
                                drop (length ?d - holdout_size (length ?d)) ?d)"
    by (simp add: prophet_split_def Let_def py_split_nonzero)
  with assms show ?thesis
    by (simp add: train_prophet_model_def Let_def holdout_size_eq)
qed

lemma xgboost_trainer_window:
  assumes "MIN_DATA_DAYS + 30 \<le> length features"
  shows "train_xgboost_model fit features target =
     (case fit (take (length features - 30) features) (take (length target - 30) target)
               (drop (length features - 30) features) (drop (length target - 30) target) of
        None \<Rightarrow> (None, None, not_trained_performance)
      | Some (final_model, y_pred_test, perf) \<Rightarrow>
          (Some final_model, Some y_pred_test, perf))"
  using assms by (simp add: train_xgboost_model_def xgboost_split_eq)

lemma lightgbm_trainer_window:
  assumes "60 \<le> length features"
  shows "lightgbm_train fit features target =
     (let k = min 30 (length features div 5)
      in fit (take (length features - k) features) (take (length target - k) target)
             (drop (length features - k) features) (drop (length target - k) target))"
proof -
  have "holdout_size (length features) \<noteq> 0"
    using assms by (intro holdout_size_nonzero) simp
  then show ?thesis
    using assms
    by (simp add: lightgbm_train_def lightgbm_split_def Let_def py_split_nonzero holdout_size_eq)
qed

lemma lstm_trainer_window:
  assumes gate: "lookback_days LSTMPredictor + forecast_days LSTMPredictor + 30
                   \<le> length (filter (\<lambda>r. item r = product_name) df)"
    and scaled: "length (fit_transform (map quantity (filter (\<lambda>r. item r = product_name) df)))
                   = length (filter (\<lambda>r. item r = product_name) df)"
  shows "lstm_train LSTMPredictor fit_transform fit df product_name =
     (let product_df = filter (\<lambda>r. item r = product_name) df;
          sequences = prepare_sequences LSTMPredictor (fit_transform (map quantity product_df));
          m = length product_df - 20; k = min 30 (m div 5)
      in fit (take (m - k) (fst sequences)) (take (m - k) (snd sequences))
             (drop (m - k) (fst sequences)) (drop (m - k) (snd sequences)))"
proof -
  let ?d = "filter (\<lambda>r. item r = product_name) df"
  let ?s = "prepare_sequences LSTMPredictor (fit_transform (map quantity ?d))"
  have n: "51 \<le> length ?d" using gate by (simp add: LSTMPredictor_def)
  have lx: "length (fst ?s) = length ?d - 20"
    using scaled by (simp add: length_prepare_sequences LSTMPredictor_def)
  have ly: "length (snd ?s) = length ?d - 20"
    using scaled by (simp add: length_prepare_sequences_snd LSTMPredictor_def)
  have nz: "holdout_size (length ?d - 20) \<noteq> 0"
    using n by (intro holdout_size_nonzero) simp
  have "lstm_train LSTMPredictor fit_transform fit df product_name =
      fit (py_upto_last (holdout_size (length (fst ?s))) (fst ?s))
          (py_upto_last (holdout_size (length (fst ?s))) (snd ?s))
          (py_last (holdout_size (length (fst ?s))) (fst ?s))
          (py_last (holdout_size (length (fst ?s))) (snd ?s))"
    using gate by (simp add: lstm_train_def lstm_split_def Let_def case_prod_beta)
  then show ?thesis
    using nz by (simp add: lx ly py_split_nonzero Let_def holdout_size_eq)
qed

text \<open>
  Claim C2, as stated, gives every trainer the holdout \<open>min(30, 20% of length)\<close>.
  \<open>train_xgboost_model\<close> holds out a fixed 30 rows: on 100 rows, which pass its gate of 60
  rows, the fit is evaluated on the rows 70 to 99, not on the last \<open>min(30, 20) = 20\<close>.
\<close>

theorem holdout_window_counterexample:
  "MIN_DATA_DAYS + 30 \<le> length [0 ..< 100 :: nat]
   \<and> train_xgboost_model
        (\<lambda>X_train y_train X_test y_test. Some ((), map real X_test, []))
        [0 ..< 100 :: nat] (replicate 100 (0 :: real))
      = (Some (), Some (map real [70 ..< 100]), [])
   \<and> min 30 (nat \<lfloor>real (length [0 ..< 100 :: nat]) * 0.2\<rfloor>) = 20"
  by (simp add: train_xgboost_model_def xgboost_split_def py_last_def py_upto_last_def
      MIN_DATA_DAYS_def)

text \<open>
  Claim C2, amended: above its gate, each trainer hands to the fit a training part and a
  holdout that are the slice before and the trailing slice of its data, unshuffled. The
  Prophet trainer (gate 30 rows) and the LightGBM trainer (gate 60 rows) hold out exactly
  the last \<open>min(30, n div 5)\<close> of the \<open>n\<close> rows; the XGBoost trainer (gate 60 rows) holds
  out exactly the last 30 rows; the LSTM trainer (gate 51 rows with the default lookback
  14 and horizon 7, the scaler returning one value per row) builds \<open>n - 20\<close> sequences
  and holds out the last \<open>min(30, (n - 20) div 5)\<close> of them.
\<close>

theorem holdout_window_per_trainer:
  "(MIN_DATA_DAYS \<le> length (filter (\<lambda>r. item r = product_name) df) \<longrightarrow>
      train_prophet_model fit_p df product_name =
        (let prophet_data = filter (\<lambda>r. item r = product_name) df;
             n = length prophet_data; k = min 30 (n div 5)
         in case fit_p (take (n - k) prophet_data) (drop (n - k) prophet_data) of
              None \<Rightarrow> (None, None, None, not_trained_performance)
            | Some (model, final_forecast, y_pred_test, perf) \<Rightarrow>
                (Some model, Some final_forecast, Some y_pred_test, perf)))
   \<and> (60 \<le> length features \<longrightarrow>
      lightgbm_train fit_g features target =
        (let k = min 30 (length features div 5)
         in fit_g (take (length features - k) features) (take (length target - k) target)
                  (drop (length features - k) features) (drop (length target - k) target)))
   \<and> (MIN_DATA_DAYS + 30 \<le> length features' \<longrightarrow>
      train_xgboost_model fit_x features' target' =
        (case fit_x (take (length features' - 30) features') (take (length target' - 30) target')
                    (drop (length features' - 30) features')
                    (drop (length target' - 30) target') of
           None \<Rightarrow> (None, None, not_trained_performance)
         | Some (final_model, y_pred_test, perf) \<Rightarrow>
             (Some final_model, Some y_pred_test, perf)))
   \<and> (lookback_days LSTMPredictor + forecast_days LSTMPredictor + 30
         \<le> length (filter (\<lambda>r. item r = product_name') df')
       \<and> length (fit_transform (map quantity (filter (\<lambda>r. item r = product_name') df')))
           = length (filter (\<lambda>r. item r = product_name') df') \<longrightarrow>
      lstm_train LSTMPredictor fit_transform fit_l df' product_name' =
        (let product_df = filter (\<lambda>r. item r = product_name') df';
             sequences = prepare_sequences LSTMPredictor (fit_transform (map quantity product_df));
             m = length product_df - 20; k = min 30 (m div 5)
         in fit_l (take (m - k) (fst sequences)) (take (m - k) (snd sequences))
                  (drop (m - k) (fst sequences)) (drop (m - k) (snd sequences))))"
  using prophet_trainer_window[of product_name df fit_p]
    lightgbm_trainer_window[of features fit_g target]
    xgboost_trainer_window[of features' fit_x target']
    lstm_trainer_window[of product_name' df' fit_transform fit_l]
  by blast


theorem holdout_window_per_trainer_witness:
  "MIN_DATA_DAYS \<le> length (filter (\<lambda>r. item r = [65]) (replicate 100 \<lparr>date = 0, item = [65], quantity = Some 1, event = PAbsent,
           promotion = PAbsent, weather = PAbsent, temperature = PAbsent\<rparr>))
   \<and> train_prophet_model
        (\<lambda>train_data test_data.
           Some ((), (), map (\<lambda>r. real (length train_data)) test_data, []))
        (replicate 100 \<lparr>date = 0, item = [65], quantity = Some 1, event = PAbsent,
           promotion = PAbsent, weather = PAbsent, temperature = PAbsent\<rparr>) [65]
      = (Some (), Some (), Some (replicate 20 80), [])
   \<and> 60 \<le> length [0 ..< 100 :: nat]
   \<and> lightgbm_train
        (\<lambda>X_train y_train X_test y_test.
           Inr \<lparr>trained = True, message = None, performance = None,
                predictions = Some (map real X_test)\<rparr>)
        [0 ..< 100 :: nat] (replicate 100 (0 :: real))
      = Inr \<lparr>trained = True, message = None, performance = None,
             predictions = Some (map real [80 ..< 100])\<rparr>
   \<and> MIN_DATA_DAYS + 30 \<le> length [0 ..< 100 :: nat]
   \<and> train_xgboost_model
        (\<lambda>X_train y_train X_test y_test. Some ((), map real X_test, []))
        [0 ..< 100 :: nat] (replicate 100 (0 :: real))
      = (Some (), Some (map real [70 ..< 100]), [])
   \<and> lookback_days LSTMPredictor + forecast_days LSTMPredictor + 30
        \<le> length (filter (\<lambda>r. item r = [65]) (replicate 100 \<lparr>date = 0, item = [65], quantity = Some 1, event = PAbsent,
           promotion = PAbsent, weather = PAbsent, temperature = PAbsent\<rparr>))
   \<and> length (map (\<lambda>q. 0 :: real) (map quantity (filter (\<lambda>r. item r = [65])
          (replicate 100 \<lparr>date = 0, item = [65], quantity = Some 1, event = PAbsent,
           promotion = PAbsent, weather = PAbsent, temperature = PAbsent\<rparr>))))
        = length (filter (\<lambda>r. item r = [65]) (replicate 100 \<lparr>date = 0, item = [65], quantity = Some 1, event = PAbsent,
           promotion = PAbsent, weather = PAbsent, temperature = PAbsent\<rparr>))
   \<and> lstm_train LSTMPredictor (map (\<lambda>q. 0 :: real))
        (\<lambda>X_train y_train X_test y_test.
           Inr \<lparr>trained = True, message = None, performance = None,
                predictions = Some [real (length X_train), real (length X_test)]\<rparr>)
        (replicate 100 \<lparr>date = 0, item = [65], quantity = Some 1, event = PAbsent,
           promotion = PAbsent, weather = PAbsent, temperature = PAbsent\<rparr>) [65]
      = Inr \<lparr>trained = True, message = None, performance = None,
             predictions = Some [64, 16]\<rparr>"
proof -
  let ?r = "\<lparr>date = 0, item = [65], quantity = Some 1, event = PAbsent,
           promotion = PAbsent, weather = PAbsent, temperature = PAbsent\<rparr>"
  let ?fp = "\<lambda>(train_data :: row list) (test_data :: row list).
           Some ((), (), map (\<lambda>r. real (length train_data)) test_data, [] :: weights)"
  let ?fg = "\<lambda>(X_train :: nat list) (y_train :: real list) (X_test :: nat list)
              (y_test :: real list).
           Inr \<lparr>trained = True, message = None, performance = None,
                predictions = Some (map real X_test)\<rparr> :: py_error + train_result"
  let ?fx = "\<lambda>(X_train :: nat list) (y_train :: real list) (X_test :: nat list)
              (y_test :: real list). Some ((), map real X_test, [] :: weights)"
  let ?fl = "\<lambda>(X_train :: real list list) (y_train :: real list list)
              (X_test :: real list list) (y_test :: real list list).
           Inr \<lparr>trained = True, message = None, performance = None,
                predictions = Some [real (length X_train), real (length X_test)]\<rparr>
             :: py_error + train_result"
  have h1: "MIN_DATA_DAYS \<le> length (filter (\<lambda>r. item r = [65]) (replicate 100 ?r))"
    by (simp add: MIN_DATA_DAYS_def)
  have h2: "60 \<le> length [0 ..< 100 :: nat]" by simp
  have h3: "MIN_DATA_DAYS + 30 \<le> length [0 ..< 100 :: nat]" by (simp add: MIN_DATA_DAYS_def)
  have h4: "lookback_days LSTMPredictor + forecast_days LSTMPredictor + 30
              \<le> length (filter (\<lambda>r. item r = [65]) (replicate 100 ?r))"
    by (simp add: LSTMPredictor_def)
  have h5: "length (map (\<lambda>q. 0 :: real) (map quantity (filter (\<lambda>r. item r = [65])
              (replicate 100 ?r))))
            = length (filter (\<lambda>r. item r = [65]) (replicate 100 ?r))"
    by simp
  note t = holdout_window_per_trainer[where product_name = "[65]" and df = "replicate 100 ?r"
      and fit_p = ?fp and features = "[0 ..< 100 :: nat]" and target = "replicate 100 (0 :: real)"
      and fit_g = ?fg and features' = "[0 ..< 100 :: nat]"
      and target' = "replicate 100 (0 :: real)" and fit_x = ?fx
      and product_name' = "[65]" and df' = "replicate 100 ?r"
      and fit_transform = "map (\<lambda>q. 0 :: real)" and fit_l = ?fl]
  have a: "train_prophet_model ?fp (replicate 100 ?r) [65]
             = (Some (), Some (), Some (replicate 20 80), [])"
    using t h1 by (simp add: Let_def)
  have b: "lightgbm_train ?fg [0 ..< 100 :: nat] (replicate 100 (0 :: real))
             = Inr \<lparr>trained = True, message = None, performance = None,
                    predictions = Some (map real [80 ..< 100])\<rparr>"
    using t h2 by (simp add: Let_def)
  have c: "train_xgboost_model ?fx [0 ..< 100 :: nat] (replicate 100 (0 :: real))
             = (Some (), Some (map real [70 ..< 100]), [])"
    using t h3 by simp
  have d: "lstm_train LSTMPredictor (map (\<lambda>q. 0 :: real)) ?fl (replicate 100 ?r) [65]
             = Inr \<lparr>trained = True, message = None, performance = None,
                    predictions = Some [64, 16]\<rparr>"
    using t h4 h5 by (simp add: Let_def length_prepare_sequences length_prepare_sequences_snd
        LSTMPredictor_def)
  show ?thesis by (intro conjI h1 a h2 b h3 c h4 h5 d)
qed

text \<open>
  Claim C3, as stated, gives every trainer below its gate a result with accuracy -1 and
  MAE -1. \<open>LightGBMPredictor.train\<close> on 59 rows returns the dictionary with the keys
  \<open>trained\<close> and \<open>message\<close> only: it holds no accuracy and no MAE, and the orchestrator
  reads its accuracy as 0.
\<close>

theorem not_trained_result_counterexample:
  "lightgbm_train (\<lambda>X_train y_train X_test y_test. Inl LibraryError)
       (replicate 59 (0 :: nat)) (replicate 59 (0 :: real))
     = Inr insufficient_data
   \<and> trained insufficient_data = False
   \<and> performance insufficient_data = None
   \<and> result_accuracy insufficient_data = 0"
  by (simp add: lightgbm_train_def insufficient_data_def result_accuracy_def)

text \<open>
  Claim C3, amended: below its gate, and without raising, the Prophet trainer returns no
  model, no forecast, no predictions and the performance \<open>{Accuracy(%): -1, MAE: -1}\<close>, and
  so does the XGBoost trainer (both results carry no trained flag); the LightGBM and LSTM
  trainers return a result whose trained flag is false and which holds a message but
  neither a performance entry nor predictions.
\<close>

theorem not_trained_result_per_trainer:
  "(length (filter (\<lambda>r. item r = product_name) df) < MIN_DATA_DAYS \<longrightarrow>
      train_prophet_model fit_p df product_name
        = (None, None, None, [(''Accuracy(%)'', - 1), (''MAE'', - 1)]))
   \<and> (length features < MIN_DATA_DAYS + 30 \<longrightarrow>
      train_xgboost_model fit_x features target
        = (None, None, [(''Accuracy(%)'', - 1), (''MAE'', - 1)]))
   \<and> (length features' < 60 \<longrightarrow>
      lightgbm_train fit_g features' target' = Inr insufficient_data)
   \<and> (length (filter (\<lambda>r. item r = product_name') df') <
        lookback_days self + forecast_days self + 30 \<longrightarrow>
      lstm_train self fit_transform fit_l df' product_name' = Inr insufficient_data)
   \<and> trained insufficient_data = False
   \<and> performance insufficient_data = None
   \<and> predictions insufficient_data = None"
  by (simp add: train_prophet_model_def train_xgboost_model_def lightgbm_train_def
      lstm_train_def not_trained_performance_def insufficient_data_def Let_def)

theorem not_trained_result_per_trainer_witness:
  "length (filter (\<lambda>r. item r = [65])
       (replicate 10 \<lparr>date = 0, item = [65], quantity = Some 1, event = PAbsent,
          promotion = PAbsent, weather = PAbsent, temperature = PAbsent\<rparr>)) < MIN_DATA_DAYS
   \<and> train_prophet_model (\<lambda>train_data test_data. None :: (unit \<times> unit \<times> real list \<times> weights) option)
       (replicate 10 \<lparr>date = 0, item = [65], quantity = Some 1, event = PAbsent,
          promotion = PAbsent, weather = PAbsent, temperature = PAbsent\<rparr>) [65]
       = (None, None, None, [(''Accuracy(%)'', - 1), (''MAE'', - 1)])
   \<and> length (replicate 59 (0 :: nat)) < MIN_DATA_DAYS + 30
   \<and> train_xgboost_model
         (\<lambda>X_train y_train X_test y_test. None :: (unit \<times> real list \<times> weights) option)
         (replicate 59 (0 :: nat)) (replicate 59 (0 :: real))
       = (None, None, [(''Accuracy(%)'', - 1), (''MAE'', - 1)])
   \<and> length (replicate 59 (0 :: nat)) < 60
   \<and> lightgbm_train (\<lambda>X_train y_train X_test y_test. Inl LibraryError)
         (replicate 59 (0 :: nat)) (replicate 59 (0 :: real))
       = Inr insufficient_data
   \<and> length (filter (\<lambda>r. item r = [65])
       (replicate 50 \<lparr>date = 0, item = [65], quantity = Some 1, event = PAbsent,
          promotion = PAbsent, weather = PAbsent, temperature = PAbsent\<rparr>))
        < lookback_days LSTMPredictor + forecast_days LSTMPredictor + 30
   \<and> lstm_train LSTMPredictor (\<lambda>qs. qs) (\<lambda>X_train y_train X_test y_test. Inl LibraryError)
       (replicate 50 \<lparr>date = 0, item = [65], quantity = Some 1, event = PAbsent,
          promotion = PAbsent, weather = PAbsent, temperature = PAbsent\<rparr>) [65]
       = Inr insufficient_data"
proof -
  let ?r = "\<lparr>date = 0, item = [65], quantity = Some 1, event = PAbsent,
          promotion = PAbsent, weather = PAbsent, temperature = PAbsent\<rparr>"
  have h1: "length (filter (\<lambda>r. item r = [65]) (replicate 10 ?r)) < MIN_DATA_DAYS"
    by (simp add: MIN_DATA_DAYS_def)
  have h2: "length (replicate 59 (0 :: nat)) < MIN_DATA_DAYS + 30"
    by (simp add: MIN_DATA_DAYS_def)
  have h3: "length (replicate 59 (0 :: nat)) < 60" by simp
  have h4: "length (filter (\<lambda>r. item r = [65]) (replicate 50 ?r))
              < lookback_days LSTMPredictor + forecast_days LSTMPredictor + 30"
    by (simp add: LSTMPredictor_def)
  show ?thesis
    using h1 h2 h3 h4
      not_trained_result_per_trainer[of "[65]" "replicate 10 ?r"
        "\<lambda>train_data test_data. None :: (unit \<times> unit \<times> real list \<times> weights) option"
        "replicate 59 (0 :: nat)"
        "\<lambda>X_train y_train X_test y_test. None :: (unit \<times> real list \<times> weights) option"
        "replicate 59 (0 :: real)"
        "replicate 59 (0 :: nat)" "\<lambda>X_train y_train X_test y_test. Inl LibraryError"
        "replicate 59 (0 :: real)"
        "[65]" "replicate 50 ?r" LSTMPredictor "\<lambda>qs. qs"
        "\<lambda>X_train y_train X_test y_test. Inl LibraryError"]
    by simp
qed

section \<open>Properties of the anomaly detector\<close>







lemma infer_reason_missing: "infer_reason r kind_missing = Inr cause_stockout"
  by (simp add: infer_reason_def Let_def)

lemma traverse_member:
  "traverse f xs = Inr ys \<Longrightarrow> y \<in> set ys \<Longrightarrow> \<exists>x \<in> set xs. f x = Inr y"
proof (induction xs arbitrary: ys)
  case Nil
  then show ?case by simp
next
  case (Cons x xs)
  then show ?case by (auto split: sum.splits)
qed

lemma collect_member:
  "collect f gs = Inr ys \<Longrightarrow> y \<in> set ys \<Longrightarrow> \<exists>g \<in> set gs. \<exists>l. f g = Inr l \<and> y \<in> set l"
proof (induction gs arbitrary: ys)
  case Nil
  then show ?case by simp
next
  case (Cons g gs)
  then show ?case by (auto split: sum.splits)
qed

lemma log_entry_fields:
  assumes "log_entry self (r, z) = Inr a"
  shows "log_date a = date r" "log_item a = item r" "log_quantity a = quantity r"
     "log_z_score a = z" "log_type a = define_anomaly_type self (quantity r) z"
     "infer_reason r (log_type a) = Inr (log_reason a)"
  using assms by (auto simp: log_entry_def Let_def split: sum.splits)

lemma detect_member:
  assumes "detect_anomalies_and_missing pd self g = Inr l" and "a \<in> set l"
  shows "\<exists>r z. (r, z) \<in> set (zip g (calculate_z_score pd (map quantity g)))
            \<and> anomaly_mask self (quantity r) z \<and> log_entry self (r, z) = Inr a"
proof -
  let ?an = "filter (\<lambda>rz. anomaly_mask self (quantity (fst rz)) (snd rz))
               (zip g (calculate_z_score pd (map quantity g)))"
  from assms have "traverse (log_entry self) ?an = Inr l"
    by (auto simp: detect_anomalies_and_missing_def Let_def split: if_splits)
  from traverse_member[OF this assms(2)] show ?thesis by auto
qed

text \<open>
  Claim C8: for a row whose anomaly kind is "missing", \<open>_infer_reason\<close> returns the
  stock-out cause whatever the event, promotion, weather and temperature cells hold, and
  without raising; hence every row of an item's anomaly log whose kind is "missing"
  carries that cause.
\<close>

theorem missing_rows_get_stockout_cause:
  "infer_reason r kind_missing = Inr cause_stockout
   \<and> (detect_anomalies_and_missing pd self g = Inr l \<longrightarrow>
        (\<forall>a \<in> set l. log_type a = kind_missing \<longrightarrow> log_reason a = cause_stockout))"
proof -
  { fix a assume d: "detect_anomalies_and_missing pd self g = Inr l" and a: "a \<in> set l"
      and k: "log_type a = kind_missing"
    from detect_member[OF d a] obtain r0 z where "log_entry self (r0, z) = Inr a" by blast
    from log_entry_fields(6)[OF this] k have "log_reason a = cause_stockout"
      by (simp add: infer_reason_missing) }
  then show ?thesis by (auto simp: infer_reason_missing)
qed


theorem missing_rows_get_stockout_cause_witness:
  "detect_anomalies_and_missing exact_pandas SmartDemandPreprocessor
      [\<lparr>date = 1, item = [65], quantity = None, event = PStr kw_discount,
        promotion = PNum 1, weather = PStr [0xBE44], temperature = PNum 30\<rparr>]
     = Inr [\<lparr>log_date = 1, log_item = [65], log_quantity = None, log_type = kind_missing,
             log_event_info = PStr kw_discount, log_reason = cause_stockout,
             log_z_score = None\<rparr>]
   \<and> infer_reason \<lparr>date = 1, item = [65], quantity = None, event = PStr kw_discount,
        promotion = PNum 1, weather = PStr [0xBE44], temperature = PNum 30\<rparr> kind_missing
     = Inr cause_stockout"
proof -
  let ?r = "\<lparr>date = 1, item = [65], quantity = None, event = PStr kw_discount,
        promotion = PNum 1, weather = PStr [0xBE44], temperature = PNum 30\<rparr>"
  let ?a = "\<lparr>log_date = 1, log_item = [65], log_quantity = None, log_type = kind_missing,
             log_event_info = PStr kw_discount, log_reason = cause_stockout,
             log_z_score = None\<rparr>"
  have h: "detect_anomalies_and_missing exact_pandas SmartDemandPreprocessor [?r] = Inr [?a]"
    by (simp add: detect_anomalies_and_missing_def calculate_z_score_def exact_std_def exact_pandas_def
        exact_mean_def anomaly_mask_def log_entry_def define_anomaly_type_def
        infer_reason_def event_info_def Let_def)
  show ?thesis
    using h missing_rows_get_stockout_cause[of ?r exact_pandas SmartDemandPreprocessor "[?r]" "[?a]"] by simp
qed

lemma create_features_no_null:
  assumes "m \<in> set (create_features_from_log df anomaly_log)"
  shows "is_anomaly m \<noteq> None \<and> anomaly_type m \<noteq> None
       \<and> anomaly_reason m \<noteq> None \<and> anomaly_score m \<noteq> None"
  using assms
  by (auto simp: create_features_from_log_def with_features_def fillna_def
      split: if_splits option.splits)

lemma traverse_success:
  "traverse f xs = Inr ys \<Longrightarrow> x \<in> set xs \<Longrightarrow> \<exists>y \<in> set ys. f x = Inr y"
proof (induction xs arbitrary: ys)
  case Nil
  then show ?case by simp
next
  case (Cons x' xs)
  then show ?case by (auto split: sum.splits)
qed

lemma collect_success:
  "collect f gs = Inr ys \<Longrightarrow> g \<in> set gs \<Longrightarrow> \<exists>l. f g = Inr l \<and> set l \<subseteq> set ys"
proof (induction gs arbitrary: ys)
  case Nil
  then show ?case by simp
next
  case (Cons g' gs)
  then show ?case by (fastforce split: sum.splits)
qed

lemma length_calculate_z_score: "length (calculate_z_score pd series) = length series"
  by (simp add: calculate_z_score_def Let_def)

lemma z_score_of_missing:
  assumes "(None, z) \<in> set (zip series (calculate_z_score pd series))"
  shows "z = None \<or> z = Some 0"
  using assms
  by (auto simp: calculate_z_score_def Let_def zip_map2 zip_same_conv_map split: if_splits)

lemma zip_quantity:
  "(r, z) \<in> set (zip g zs) \<Longrightarrow> (quantity r, z) \<in> set (zip (map quantity g) zs)"
  by (force simp: zip_map1)

lemma groupby_item_subset:
  "(name, g) \<in> set (groupby_item df) \<Longrightarrow> set g \<subseteq> set df"
  by (auto simp: groupby_item_def)

lemma groupby_item_member:
  "r \<in> set df \<Longrightarrow> (item r, filter (\<lambda>x. item x = item r) df) \<in> set (groupby_item df)"
  by (auto simp: groupby_item_def)

lemma log_origin:
  assumes c: "collect (\<lambda>(product_name, group). detect_anomalies_and_missing pd self group)
                (groupby_item df) = Inr anomaly_log"
    and a: "a \<in> set anomaly_log"
  shows "\<exists>r \<in> set df. log_date a = date r \<and> log_item a = item r
           \<and> (quantity r = None \<longrightarrow> log_z_score a = None \<or> log_z_score a = Some 0)"
proof -
  from collect_member[OF c a] obtain name g l
    where g: "(name, g) \<in> set (groupby_item df)"
      and d: "detect_anomalies_and_missing pd self g = Inr l" and al: "a \<in> set l"
    by auto
  from detect_member[OF d al] obtain r z
    where rz: "(r, z) \<in> set (zip g (calculate_z_score pd (map quantity g)))"
      and e: "log_entry self (r, z) = Inr a"
    by blast
  from rz have "r \<in> set g" by (rule set_zip_leftD)
  with groupby_item_subset[OF g] have r: "r \<in> set df" by auto
  have "quantity r = None \<longrightarrow> z = None \<or> z = Some 0"
    using zip_quantity[OF rz] z_score_of_missing[of z "map quantity g"] by auto
  with r log_entry_fields[OF e] show ?thesis by auto
qed

lemma missing_is_logged:
  assumes c: "collect (\<lambda>(product_name, group). detect_anomalies_and_missing pd self group)
                (groupby_item df) = Inr anomaly_log"
    and r: "r \<in> set df" and q: "quantity r = None"
  shows "\<exists>a \<in> set anomaly_log. log_date a = date r \<and> log_item a = item r"
proof -
  let ?g = "filter (\<lambda>x. item x = item r) df"
  let ?zs = "calculate_z_score pd (map quantity ?g)"
  let ?an = "filter (\<lambda>rz. anomaly_mask self (quantity (fst rz)) (snd rz)) (zip ?g ?zs)"
  from collect_success[OF c groupby_item_member[OF r] ] obtain l
    where d: "detect_anomalies_and_missing pd self ?g = Inr l" and sub: "set l \<subseteq> set anomaly_log"
    by auto
  from r have "r \<in> set ?g" by simp
  then obtain i where i: "i < length ?g" and ri: "?g ! i = r"
    unfolding in_set_conv_nth by blast
  then have "(r, ?zs ! i) \<in> set (zip ?g ?zs)"
    by (auto simp: in_set_zip length_calculate_z_score intro!: exI[of _ i])
  with q have mem: "(r, ?zs ! i) \<in> set ?an" by (simp add: anomaly_mask_def)
  then have ne: "?an \<noteq> []" by (metis empty_iff list.set(1))
  from d ne have "traverse (log_entry self) ?an = Inr l"
    by (simp add: detect_anomalies_and_missing_def Let_def)
  from traverse_success[OF this mem] obtain a
    where "a \<in> set l" and "log_entry self (r, ?zs ! i) = Inr a" by auto
  with sub log_entry_fields[OF this(2)] show ?thesis by auto
qed

lemma create_features_missing:
  assumes c: "collect (\<lambda>(product_name, group). detect_anomalies_and_missing pd self group)
                (groupby_item df) = Inr anomaly_log"
    and inj: "inj_on (\<lambda>r. (date r, item r)) (set df)"
    and m: "m \<in> set (create_features_from_log df anomaly_log)"
    and q: "quantity m = None"
  shows "is_anomaly m = Some True \<and> anomaly_score m = Some 0"
proof (cases "anomaly_log = []")
  case True
  with m obtain r where r: "r \<in> set df" and "quantity r = None"
    using q by (auto simp: create_features_from_log_def with_features_def)
  from missing_is_logged[OF c this] True show ?thesis by simp
next
  case False
  let ?fill = "\<lambda>m. m\<lparr>is_anomaly := fillna False (is_anomaly m),
                        anomaly_type := fillna kind_normal (anomaly_type m),
                        anomaly_reason := fillna kind_normal (anomaly_reason m),
                        anomaly_score := fillna 0 (anomaly_score m)\<rparr>"
  from m False obtain m0 where m0: "m0 \<in> set (merge_left df anomaly_log)" and mm: "m = ?fill m0"
    by (auto simp: create_features_from_log_def)
  from m0 obtain r where r: "r \<in> set df"
    and cases: "(filter (\<lambda>a. log_date a = date r \<and> log_item a = item r) anomaly_log = []
                  \<and> m0 = with_features r None None None None)
              \<or> (\<exists>a \<in> set anomaly_log. log_date a = date r \<and> log_item a = item r
                  \<and> m0 = with_features r (Some True) (Some (log_type a))
                            (Some (log_reason a)) (log_z_score a))"
    by (auto simp: merge_left_def Let_def split: if_splits)
  have qr: "quantity r = None"
    using cases q mm by (auto simp: with_features_def)
  from missing_is_logged[OF c r qr] obtain a0
    where "a0 \<in> set anomaly_log" "log_date a0 = date r" "log_item a0 = item r" by auto
  then have "filter (\<lambda>a. log_date a = date r \<and> log_item a = item r) anomaly_log \<noteq> []"
    by (auto simp: filter_empty_conv)
  with cases obtain a where a: "a \<in> set anomaly_log"
    and key: "log_date a = date r" "log_item a = item r"
    and m0eq: "m0 = with_features r (Some True) (Some (log_type a))
                            (Some (log_reason a)) (log_z_score a)"
    by auto
  from log_origin[OF c a] obtain r0 where r0: "r0 \<in> set df"
    and k0: "log_date a = date r0" "log_item a = item r0"
    and z0: "quantity r0 = None \<longrightarrow> log_z_score a = None \<or> log_z_score a = Some 0"
    by auto
  from inj r r0 key k0 have "r0 = r" by (auto simp: inj_on_def)
  with z0 qr have "log_z_score a = None \<or> log_z_score a = Some 0" by simp
  with mm m0eq show ?thesis by (auto simp: with_features_def fillna_def)
qed

lemma inj_on_sorted_keys:
  assumes "distinct (map (\<lambda>r. (date r, item r)) df)"
  shows "inj_on (\<lambda>r. (date r, item r)) (set (sort_key f df))"
  using assms by (simp add: distinct_map)

lemma sqrt_9: "sqrt 9 = 3"
  by (rule real_sqrt_unique) simp_all

text \<open>
  Claim C10, as stated, covers every input table. The join on date and item pairs a
  row with every log row of its key: in a table where a row with a missing quantity
  shares date and item with an outlier (eight days with 0 units, then 9 units and a
  missing quantity both on day 9), the row with the missing quantity appears once with
  the outlier's score 8/3 and once with the score 0.
\<close>

theorem duplicate_key_score_counterexample:
  "(case process exact_pandas SmartDemandPreprocessor
      \<lparr>columns = [col_date, col_item, col_quantity],
       rows = map (\<lambda>d. \<lparr>date = d, item = [65], quantity = Some 0, event = PAbsent,
                          promotion = PAbsent, weather = PAbsent, temperature = PAbsent\<rparr>)
                [1, 2, 3, 4, 5, 6, 7, 8]
              @ [\<lparr>date = 9, item = [65], quantity = Some 9, event = PAbsent,
                   promotion = PAbsent, weather = PAbsent, temperature = PAbsent\<rparr>,
                 \<lparr>date = 9, item = [65], quantity = None, event = PAbsent,
                   promotion = PAbsent, weather = PAbsent, temperature = PAbsent\<rparr>]\<rparr> of
      Inl e \<Rightarrow> []
    | Inr (processed_df, anomaly_log) \<Rightarrow>
        map (\<lambda>m. (date m, quantity m, is_anomaly m, anomaly_score m)) processed_df)
   = [(1, Some 0, Some False, Some 0), (2, Some 0, Some False, Some 0),
      (3, Some 0, Some False, Some 0), (4, Some 0, Some False, Some 0),
      (5, Some 0, Some False, Some 0), (6, Some 0, Some False, Some 0),
      (7, Some 0, Some False, Some 0), (8, Some 0, Some False, Some 0),
      (9, Some 9, Some True, Some (8 / 3)), (9, Some 9, Some True, Some 0),
      (9, None, Some True, Some (8 / 3)), (9, None, Some True, Some 0)]"
  by (simp add: process_def groupby_item_def detect_anomalies_and_missing_def
        calculate_z_score_def exact_std_def exact_pandas_def exact_mean_def anomaly_mask_def
        log_entry_def define_anomaly_type_def infer_reason_def event_info_def Let_def
        create_features_from_log_def merge_left_def with_features_def fillna_def
        SmartDemandPreprocessor_def sqrt_9 col_date_def col_item_def col_quantity_def
        kind_missing_def kind_surge_def kind_drop_def kind_normal_def row_get_def
        equals_one_def notna_def)

text \<open>
  Claim C10, amended: whenever \<open>process\<close> returns, no row of the processed table has a
  null in \<open>is_anomaly\<close>, \<open>anomaly_type\<close>, \<open>anomaly_reason\<close> or \<open>anomaly_score\<close>; and when
  the (date, item) pairs of the input rows are pairwise different, every row whose
  quantity is missing ends up with \<open>is_anomaly = True\<close> and \<open>anomaly_score = 0.0\<close>: its
  z-score is NaN, filled with 0.0 after the join, or the constant 0 of an item whose
  standard deviation is 0.
\<close>

theorem process_no_null:
  assumes "process pd self df = Inr (processed_df, anomaly_log)"
  shows "(\<forall>m \<in> set processed_df.
            is_anomaly m \<noteq> None \<and> anomaly_type m \<noteq> None
            \<and> anomaly_reason m \<noteq> None \<and> anomaly_score m \<noteq> None)
       \<and> (distinct (map (\<lambda>r. (date r, item r)) (rows df)) \<longrightarrow>
            (\<forall>m \<in> set processed_df. quantity m = None \<longrightarrow>
               is_anomaly m = Some True \<and> anomaly_score m = Some 0))"
proof -
  let ?sorted = "sort_key (\<lambda>r. (item r, date r)) (rows df)"
  from assms have c: "collect (\<lambda>(product_name, group). detect_anomalies_and_missing pd self group)
                (groupby_item ?sorted) = Inr anomaly_log"
    and p: "processed_df = create_features_from_log ?sorted anomaly_log"
    by (auto simp: process_def Let_def split: if_splits sum.splits)
  show ?thesis
    using create_features_no_null create_features_missing[OF c inj_on_sorted_keys]
    unfolding p by blast
qed


theorem process_no_null_witness:
  "process exact_pandas SmartDemandPreprocessor
      \<lparr>columns = [col_date, col_item, col_quantity],
        rows = [\<lparr>date = 2, item = [65], quantity = None, event = PAbsent, promotion = PAbsent, weather = PAbsent, temperature = PAbsent\<rparr>,
                \<lparr>date = 1, item = [65], quantity = Some 1, event = PAbsent, promotion = PAbsent, weather = PAbsent, temperature = PAbsent\<rparr>,
                \<lparr>date = 3, item = [65], quantity = Some 3, event = PAbsent, promotion = PAbsent, weather = PAbsent, temperature = PAbsent\<rparr>,
                \<lparr>date = 4, item = [65], quantity = Some 5, event = PAbsent, promotion = PAbsent, weather = PAbsent, temperature = PAbsent\<rparr>]\<rparr>
     = Inr ([\<lparr>date = 1, item = [65], quantity = Some 1, event = PAbsent, promotion = PAbsent,
            weather = PAbsent, temperature = PAbsent, is_anomaly = Some False,
            anomaly_type = Some kind_normal, anomaly_reason = Some kind_normal, anomaly_score = Some 0\<rparr>,
           \<lparr>date = 2, item = [65], quantity = None, event = PAbsent, promotion = PAbsent,
            weather = PAbsent, temperature = PAbsent, is_anomaly = Some True,
            anomaly_type = Some kind_missing, anomaly_reason = Some cause_stockout, anomaly_score = Some 0\<rparr>,
           \<lparr>date = 3, item = [65], quantity = Some 3, event = PAbsent, promotion = PAbsent,
            weather = PAbsent, temperature = PAbsent, is_anomaly = Some False,
            anomaly_type = Some kind_normal, anomaly_reason = Some kind_normal, anomaly_score = Some 0\<rparr>,
           \<lparr>date = 4, item = [65], quantity = Some 5, event = PAbsent, promotion = PAbsent,
            weather = PAbsent, temperature = PAbsent, is_anomaly = Some False,
            anomaly_type = Some kind_normal, anomaly_reason = Some kind_normal, anomaly_score = Some 0\<rparr>],
          [\<lparr>log_date = 2, log_item = [65], log_quantity = None, log_type = kind_missing,
             log_event_info = PStr kw_none, log_reason = cause_stockout,
             log_z_score = None\<rparr>])
   \<and> distinct (map (\<lambda>r. (date r, item r)) (rows
      \<lparr>columns = [col_date, col_item, col_quantity],
        rows = [\<lparr>date = 2, item = [65], quantity = None, event = PAbsent, promotion = PAbsent, weather = PAbsent, temperature = PAbsent\<rparr>,
                \<lparr>date = 1, item = [65], quantity = Some 1, event = PAbsent, promotion = PAbsent, weather = PAbsent, temperature = PAbsent\<rparr>,
                \<lparr>date = 3, item = [65], quantity = Some 3, event = PAbsent, promotion = PAbsent, weather = PAbsent, temperature = PAbsent\<rparr>,
                \<lparr>date = 4, item = [65], quantity = Some 5, event = PAbsent, promotion = PAbsent, weather = PAbsent, temperature = PAbsent\<rparr>]\<rparr>))
   \<and> list_all (\<lambda>m. is_anomaly m \<noteq> None \<and> anomaly_type m \<noteq> None
                   \<and> anomaly_reason m \<noteq> None \<and> anomaly_score m \<noteq> None)
        [\<lparr>date = 1, item = [65], quantity = Some 1, event = PAbsent, promotion = PAbsent,
            weather = PAbsent, temperature = PAbsent, is_anomaly = Some False,
            anomaly_type = Some kind_normal, anomaly_reason = Some kind_normal, anomaly_score = Some 0\<rparr>,
           \<lparr>date = 2, item = [65], quantity = None, event = PAbsent, promotion = PAbsent,
            weather = PAbsent, temperature = PAbsent, is_anomaly = Some True,
            anomaly_type = Some kind_missing, anomaly_reason = Some cause_stockout, anomaly_score = Some 0\<rparr>,
           \<lparr>date = 3, item = [65], quantity = Some 3, event = PAbsent, promotion = PAbsent,
            weather = PAbsent, temperature = PAbsent, is_anomaly = Some False,
            anomaly_type = Some kind_normal, anomaly_reason = Some kind_normal, anomaly_score = Some 0\<rparr>,
           \<lparr>date = 4, item = [65], quantity = Some 5, event = PAbsent, promotion = PAbsent,
            weather = PAbsent, temperature = PAbsent, is_anomaly = Some False,
            anomaly_type = Some kind_normal, anomaly_reason = Some kind_normal, anomaly_score = Some 0\<rparr>]
   \<and> list_all (\<lambda>m. quantity m = None \<longrightarrow> is_anomaly m = Some True \<and> anomaly_score m = Some 0)
        [\<lparr>date = 1, item = [65], quantity = Some 1, event = PAbsent, promotion = PAbsent,
            weather = PAbsent, temperature = PAbsent, is_anomaly = Some False,
            anomaly_type = Some kind_normal, anomaly_reason = Some kind_normal, anomaly_score = Some 0\<rparr>,
           \<lparr>date = 2, item = [65], quantity = None, event = PAbsent, promotion = PAbsent,
            weather = PAbsent, temperature = PAbsent, is_anomaly = Some True,
            anomaly_type = Some kind_missing, anomaly_reason = Some cause_stockout, anomaly_score = Some 0\<rparr>,
           \<lparr>date = 3, item = [65], quantity = Some 3, event = PAbsent, promotion = PAbsent,
            weather = PAbsent, temperature = PAbsent, is_anomaly = Some False,
            anomaly_type = Some kind_normal, anomaly_reason = Some kind_normal, anomaly_score = Some 0\<rparr>,
           \<lparr>date = 4, item = [65], quantity = Some 5, event = PAbsent, promotion = PAbsent,
            weather = PAbsent, temperature = PAbsent, is_anomaly = Some False,
            anomaly_type = Some kind_normal, anomaly_reason = Some kind_normal, anomaly_score = Some 0\<rparr>]"
proof -
  let ?df = "\<lparr>columns = [col_date, col_item, col_quantity],
        rows = [\<lparr>date = 2, item = [65], quantity = None, event = PAbsent, promotion = PAbsent, weather = PAbsent, temperature = PAbsent\<rparr>,
                \<lparr>date = 1, item = [65], quantity = Some 1, event = PAbsent, promotion = PAbsent, weather = PAbsent, temperature = PAbsent\<rparr>,
                \<lparr>date = 3, item = [65], quantity = Some 3, event = PAbsent, promotion = PAbsent, weather = PAbsent, temperature = PAbsent\<rparr>,
                \<lparr>date = 4, item = [65], quantity = Some 5, event = PAbsent, promotion = PAbsent, weather = PAbsent, temperature = PAbsent\<rparr>]\<rparr>"
  let ?out = "[\<lparr>date = 1, item = [65], quantity = Some 1, event = PAbsent, promotion = PAbsent,
            weather = PAbsent, temperature = PAbsent, is_anomaly = Some False,
            anomaly_type = Some kind_normal, anomaly_reason = Some kind_normal, anomaly_score = Some 0\<rparr>,
           \<lparr>date = 2, item = [65], quantity = None, event = PAbsent, promotion = PAbsent,
            weather = PAbsent, temperature = PAbsent, is_anomaly = Some True,
            anomaly_type = Some kind_missing, anomaly_reason = Some cause_stockout, anomaly_score = Some 0\<rparr>,
           \<lparr>date = 3, item = [65], quantity = Some 3, event = PAbsent, promotion = PAbsent,
            weather = PAbsent, temperature = PAbsent, is_anomaly = Some False,
            anomaly_type = Some kind_normal, anomaly_reason = Some kind_normal, anomaly_score = Some 0\<rparr>,
           \<lparr>date = 4, item = [65], quantity = Some 5, event = PAbsent, promotion = PAbsent,
            weather = PAbsent, temperature = PAbsent, is_anomaly = Some False,
            anomaly_type = Some kind_normal, anomaly_reason = Some kind_normal, anomaly_score = Some 0\<rparr>]"
  let ?log = "[\<lparr>log_date = 2, log_item = [65], log_quantity = None, log_type = kind_missing,
             log_event_info = PStr kw_none, log_reason = cause_stockout,
             log_z_score = None\<rparr>]"
  have h: "process exact_pandas SmartDemandPreprocessor ?df = Inr (?out, ?log)"
    by (simp add: process_def groupby_item_def detect_anomalies_and_missing_def
        calculate_z_score_def exact_std_def exact_pandas_def exact_mean_def anomaly_mask_def log_entry_def
        define_anomaly_type_def infer_reason_def event_info_def Let_def
        create_features_from_log_def merge_left_def with_features_def fillna_def
        SmartDemandPreprocessor_def)
  have d: "distinct (map (\<lambda>r. (date r, item r)) (rows ?df))" by simp
  note t = process_no_null[OF h]
  have a: "list_all (\<lambda>m. is_anomaly m \<noteq> None \<and> anomaly_type m \<noteq> None
                   \<and> anomaly_reason m \<noteq> None \<and> anomaly_score m \<noteq> None) ?out"
    using conjunct1[OF t] unfolding list_all_iff .
  have b: "list_all (\<lambda>m. quantity m = None \<longrightarrow> is_anomaly m = Some True \<and> anomaly_score m = Some 0)
             ?out"
    using conjunct2[OF t] d unfolding list_all_iff by blast
  show ?thesis by (intro conjI h d a b)
qed

section \<open>Properties of the factor synthesizer\<close>

lemma those_map_Some: "those (map Some xs) = Some xs"
  by (induction xs) simp_all

lemma sqrt_100: "sqrt 100 = 10"
  by (rule real_sqrt_unique) simp_all

text \<open>
  Claim C9 says that the volatility score handed to the combiner lies between 0 and 1.
  \<open>product_pipeline\<close> hands over the coefficient of variation as \<open>_analyze_volatility\<close>
  computed it, without the clamp \<open>min(cv, 1.0)\<close> that \<open>_create_volatility_weights\<close>
  applies to the same value. For an item with 100 days without sales followed by one day
  with 101 units the score is 10.
\<close>

theorem volatility_score_above_one:
  "cv (analyze_volatility (map Some (replicate 100 0 @ [101]))) = 10"
proof -
  let ?xs = "replicate 100 0 @ [101 :: real]"
  have m: "np_mean (map Some ?xs) = Some 1"
    unfolding np_mean_def those_map_Some by (simp add: sum_list_replicate)
  have s: "np_std (map Some ?xs) = Some 10"
    unfolding np_std_def those_map_Some
    by (simp add: Let_def sqrt_100 sum_list_replicate)
  show ?thesis
    unfolding analyze_volatility_def m s by (simp add: Let_def)
qed

section \<open>Properties of the orchestrator\<close>

lemma date_not_factor: "col_date \<notin> set factor_columns"
  by (simp add: col_date_def factor_columns_def)

lemma factors_keep_date_missing:
  assumes "detect_and_create_factors df name = Inr (df', v)" and "col_date \<notin> set (columns df)"
  shows "col_date \<notin> set (columns df')"
  using assms date_not_factor
  by (auto simp: detect_and_create_factors_def assign_columns_def Let_def split: if_splits)

lemma pipeline_raises:
  assumes "col_date \<notin> set (columns df) \<or> col_quantity \<notin> set (columns df)"
  shows "\<exists>e. product_pipeline lib (name, df) = Inl e"
proof (cases "detect_and_create_factors df name")
  case (Inl e)
  then show ?thesis by (simp add: product_pipeline_def)
next
  case (Inr p)
  obtain df' v where p: "p = (df', v)" by (cases p)
  from Inr p have q: "col_quantity \<in> set (columns df)"
    by (auto simp: detect_and_create_factors_def Let_def split: if_splits)
  with assms have "col_date \<notin> set (columns df)" by simp
  from factors_keep_date_missing[OF Inr[unfolded p] this]
  have "process (pandas_library lib) SmartDemandPreprocessor df' = Inl ValueError"
    by (simp add: process_def)
  with Inr p show ?thesis by (simp add: product_pipeline_def)
qed

lemma process_product_empty:
  assumes "col_date \<notin> set (columns df) \<or> col_quantity \<notin> set (columns df)"
  shows "process_product lib (name, df) = (name, None)"
  using pipeline_raises[OF assms, of lib name] by (auto simp: process_product_def)

lemma kept_results_all_empty:
  "\<forall>t \<in> set ts. f t = (fst t, None) \<Longrightarrow> kept_results (map f ts) = []"
  by (induction ts) auto

text \<open>
  Claim C4, amended: when the table lacks the item column, the batch run fails at once,
  with the KeyError of the grouping, before any item is processed. When the table has the
  item column and lacks the date or the quantity column, the pipeline of every item
  raises, \<open>process_product\<close> catches the exception and returns the empty result for the
  item, and the batch run returns normally with no item result and an empty anomaly log.
\<close>

theorem missing_columns:
  "(col_item \<notin> set (columns df) \<longrightarrow> run_parallel_processing lib df = Inl (KeyError col_item))
   \<and> (col_item \<in> set (columns df)
        \<and> (col_date \<notin> set (columns df) \<or> col_quantity \<notin> set (columns df)) \<longrightarrow>
       (\<forall>(name, group) \<in> set (groupby_item (rows df)).
           process_product lib (name, \<lparr>columns = columns df, rows = group\<rparr>) = (name, None))
       \<and> run_parallel_processing lib df = Inr \<lparr>models_data = [], total_anomaly_log = []\<rparr>)"
proof (intro conjI impI)
  show "run_parallel_processing lib df = Inl (KeyError col_item)"
    if "col_item \<notin> set (columns df)"
    using that by (simp add: run_parallel_processing_def)
next
  assume a: "col_item \<in> set (columns df)
        \<and> (col_date \<notin> set (columns df) \<or> col_quantity \<notin> set (columns df))"
  then have m: "col_date \<notin> set (columns \<lparr>columns = columns df, rows = g\<rparr>)
                \<or> col_quantity \<notin> set (columns \<lparr>columns = columns df, rows = g\<rparr>)" for g
    by simp
  show e: "\<forall>(name, group) \<in> set (groupby_item (rows df)).
           process_product lib (name, \<lparr>columns = columns df, rows = group\<rparr>) = (name, None)"
    using process_product_empty[OF m] by auto
  have "kept_results (map (process_product lib)
          (map (\<lambda>(name, group). (name, \<lparr>columns = columns df, rows = group\<rparr>))
             (groupby_item (rows df)))) = []"
    by (rule kept_results_all_empty) (use process_product_empty[OF m] in auto)
  with a show "run_parallel_processing lib df = Inr \<lparr>models_data = [], total_anomaly_log = []\<rparr>"
    by (simp add: run_parallel_processing_def Let_def)
qed


lemma required_columns_distinct:
  "col_date \<noteq> col_item" "col_date \<noteq> col_quantity" "col_item \<noteq> col_quantity"
  "col_date \<noteq> col_month" "col_date \<noteq> col_week" "col_date \<noteq> col_day"
  "col_date \<noteq> col_weekday" "col_item \<noteq> col_month" "col_item \<noteq> col_week"
  "col_item \<noteq> col_day" "col_item \<noteq> col_weekday"
  by (simp_all add: col_date_def col_item_def col_quantity_def col_month_def col_week_def
      col_day_def col_weekday_def)

text \<open>
  Claim C4, as stated, makes the batch run fail when a required column is missing. On a
  table with the item, quantity and calendar columns and without the date column the
  factor synthesis succeeds, the precondition check of the anomaly detector raises
  ValueError inside the item's pipeline, \<open>process_product\<close> turns it into the empty
  result of that item, and the batch run returns.
\<close>

theorem missing_date_column_counterexample:
  "\<forall>lib :: (unit, unit, unit, unit, unit) library.
     col_date \<notin> set (columns
       \<lparr>columns = [col_item, col_quantity, col_month, col_week, col_day, col_weekday],
      rows = [\<lparr>date = 1, item = [65], quantity = Some 3, event = PAbsent, promotion = PAbsent,
            weather = PAbsent, temperature = PAbsent\<rparr>]\<rparr>)
     \<and> product_pipeline lib ([65],
       \<lparr>columns = [col_item, col_quantity, col_month, col_week, col_day, col_weekday],
      rows = [\<lparr>date = 1, item = [65], quantity = Some 3, event = PAbsent, promotion = PAbsent,
            weather = PAbsent, temperature = PAbsent\<rparr>]\<rparr>) = Inl ValueError
     \<and> process_product lib ([65],
       \<lparr>columns = [col_item, col_quantity, col_month, col_week, col_day, col_weekday],
      rows = [\<lparr>date = 1, item = [65], quantity = Some 3, event = PAbsent, promotion = PAbsent,
            weather = PAbsent, temperature = PAbsent\<rparr>]\<rparr>) = ([65], None)
     \<and> run_parallel_processing lib
       \<lparr>columns = [col_item, col_quantity, col_month, col_week, col_day, col_weekday],
      rows = [\<lparr>date = 1, item = [65], quantity = Some 3, event = PAbsent, promotion = PAbsent,
            weather = PAbsent, temperature = PAbsent\<rparr>]\<rparr>
       = Inr \<lparr>models_data = [], total_anomaly_log = []\<rparr>"
proof
  fix lib :: "(unit, unit, unit, unit, unit) library"
  let ?t = "\<lparr>columns = [col_item, col_quantity, col_month, col_week, col_day, col_weekday],
      rows = [\<lparr>date = 1, item = [65], quantity = Some 3, event = PAbsent, promotion = PAbsent,
            weather = PAbsent, temperature = PAbsent\<rparr>]\<rparr>"
  have d: "col_date \<notin> set (columns ?t)"
    using required_columns_distinct by simp
  have f: "\<exists>df' v. detect_and_create_factors ?t [65] = Inr (df', v)"
    using required_columns_distinct by (simp add: detect_and_create_factors_def Let_def)
  then obtain df' v where f': "detect_and_create_factors ?t [65] = Inr (df', v)" by blast
  from factors_keep_date_missing[OF f' d]
  have "process (pandas_library lib) SmartDemandPreprocessor df' = Inl ValueError"
    by (simp add: process_def)
  with f' have e: "product_pipeline lib ([65], ?t) = Inl ValueError"
    by (simp add: product_pipeline_def)
  then have p: "process_product lib ([65], ?t) = ([65], None)"
    by (simp add: process_product_def)
  have g: "groupby_item (rows ?t) = [([65], rows ?t)]"
    by (simp add: groupby_item_def)
  have r: "run_parallel_processing lib ?t = Inr \<lparr>models_data = [], total_anomaly_log = []\<rparr>"
    unfolding run_parallel_processing_def g using p by (simp add: Let_def)
  show "col_date \<notin> set (columns ?t) \<and> product_pipeline lib ([65], ?t) = Inl ValueError
     \<and> process_product lib ([65], ?t) = ([65], None)
     \<and> run_parallel_processing lib ?t = Inr \<lparr>models_data = [], total_anomaly_log = []\<rparr>"
    by (intro conjI d e p r)
qed

theorem missing_columns_witness:
  "\<forall>lib :: (unit, unit, unit, unit, unit) library.
     col_item \<notin> set (columns
       \<lparr>columns = [col_date, col_quantity],
      rows = [\<lparr>date = 1, item = [65], quantity = Some 3, event = PAbsent, promotion = PAbsent,
            weather = PAbsent, temperature = PAbsent\<rparr>]\<rparr>)
     \<and> run_parallel_processing lib
       \<lparr>columns = [col_date, col_quantity],
      rows = [\<lparr>date = 1, item = [65], quantity = Some 3, event = PAbsent, promotion = PAbsent,
            weather = PAbsent, temperature = PAbsent\<rparr>]\<rparr>
       = Inl (KeyError col_item)
     \<and> col_item \<in> set (columns
       \<lparr>columns = [col_item, col_quantity, col_month, col_week, col_day, col_weekday],
      rows = [\<lparr>date = 1, item = [65], quantity = Some 3, event = PAbsent, promotion = PAbsent,
            weather = PAbsent, temperature = PAbsent\<rparr>]\<rparr>)
     \<and> col_date \<notin> set (columns
       \<lparr>columns = [col_item, col_quantity, col_month, col_week, col_day, col_weekday],
      rows = [\<lparr>date = 1, item = [65], quantity = Some 3, event = PAbsent, promotion = PAbsent,
            weather = PAbsent, temperature = PAbsent\<rparr>]\<rparr>)
     \<and> run_parallel_processing lib
       \<lparr>columns = [col_item, col_quantity, col_month, col_week, col_day, col_weekday],
      rows = [\<lparr>date = 1, item = [65], quantity = Some 3, event = PAbsent, promotion = PAbsent,
            weather = PAbsent, temperature = PAbsent\<rparr>]\<rparr>
       = Inr \<lparr>models_data = [], total_anomaly_log = []\<rparr>"
proof
  fix lib :: "(unit, unit, unit, unit, unit) library"
  let ?t1 = "\<lparr>columns = [col_date, col_quantity],
      rows = [\<lparr>date = 1, item = [65], quantity = Some 3, event = PAbsent, promotion = PAbsent,
            weather = PAbsent, temperature = PAbsent\<rparr>]\<rparr>"
  let ?t0 = "\<lparr>columns = [col_item, col_quantity, col_month, col_week, col_day, col_weekday],
      rows = [\<lparr>date = 1, item = [65], quantity = Some 3, event = PAbsent, promotion = PAbsent,
            weather = PAbsent, temperature = PAbsent\<rparr>]\<rparr>"
  have h1: "col_item \<notin> set (columns ?t1)"
    using required_columns_distinct by simp
  have h2: "col_item \<in> set (columns ?t0)" by simp
  have h3: "col_date \<notin> set (columns ?t0)"
    using required_columns_distinct by simp
  have a: "run_parallel_processing lib ?t1 = Inl (KeyError col_item)"
    using conjunct1[OF missing_columns[of ?t1 lib] ] h1 by blast
  have b: "run_parallel_processing lib ?t0 = Inr \<lparr>models_data = [], total_anomaly_log = []\<rparr>"
    using conjunct2[OF missing_columns[of ?t0 lib] ] h2 h3 by blast
  show "col_item \<notin> set (columns ?t1)
     \<and> run_parallel_processing lib ?t1 = Inl (KeyError col_item)
     \<and> col_item \<in> set (columns ?t0)
     \<and> col_date \<notin> set (columns ?t0)
     \<and> run_parallel_processing lib ?t0 = Inr \<lparr>models_data = [], total_anomaly_log = []\<rparr>"
    by (intro conjI h1 a h2 h3 b)
qed

end
